theory Spec2Isabelle
  imports Main "HOL-Library.Word"
begin

section \<open>The ThumbnailExporter editor plugin\<close>

text \<open>
  The plugin consists of \<^verbatim>\<open>ThumbnailExporter.h\<close> and \<^verbatim>\<open>ThumbnailExporter.cpp\<close>:
  a module class with two lifecycle hooks and a static utility class with two
  operations. Every operation is a straight line of calls into the host engine. The
  engine is not part of the plugin, so the model takes it as a parameter: a record of
  the operations the plugin calls, each a function on an engine state \<open>'w\<close> that the
  plugin threads through its calls in program order. What the plugin does is observed
  in two ways: the list of engine calls it made, each with the result the engine gave
  (log lines included), and the engine state it leaves behind.
\<close>

subsection \<open>Engine types the plugin names\<close>

type_synonym int32 = "32 word"
type_synonym uint8 = "8 word"

text \<open>\<^verbatim>\<open>ELogVerbosity\<close>: the two levels the plugin passes to \<^verbatim>\<open>UE_LOG\<close>.\<close>

datatype ELogVerbosity = Warning | Log

text \<open>
  \<^verbatim>\<open>EImageFormat\<close>, \<^verbatim>\<open>ERGBFormat\<close>, \<^verbatim>\<open>EThumbnailTextureFlushMode\<close>: engine enums,
  with the members the plugin passes (\<^verbatim>\<open>JPEG\<close>, \<^verbatim>\<open>BGRA\<close>, \<^verbatim>\<open>AlwaysFlush\<close>) and their
  first neighbours.
\<close>

datatype EImageFormat = Invalid | PNG | JPEG | GrayscaleJPEG | BMP | ICO | EXR | ICNS

datatype ERGBFormat = RGBA | BGRA | Gray

datatype EThumbnailTextureFlushMode = NeverFlush | AlwaysFlush

text \<open>
  \<^verbatim>\<open>FObjectThumbnail\<close>, as far as the plugin reads it: \<^verbatim>\<open>GetImageWidth()\<close>,
  \<^verbatim>\<open>GetImageHeight()\<close> and \<^verbatim>\<open>GetUncompressedImageData()\<close>.
\<close>

record FObjectThumbnail =
  GetImageWidth :: int32
  GetImageHeight :: int32
  GetUncompressedImageData :: "uint8 list"

subsection \<open>Path functions of the engine (\<^verbatim>\<open>FString\<close>, \<^verbatim>\<open>FPaths\<close>)\<close>

text \<open>
  \<^verbatim>\<open>FPaths::ChangeExtension\<close> and \<^verbatim>\<open>FPaths::GetPath\<close> decide which file the plugin
  writes and which directory it creates. They are pure string functions of the engine
  core, not of the plugin, and are written out here after the engine's own source
  (\<^verbatim>\<open>Runtime/Core/Private/Misc/Paths.cpp\<close>), with the \<^verbatim>\<open>FString\<close> methods they use.
  The engine declares them with the comments
  \<^verbatim>\<open>// Changes the extension of the given filename (does nothing if the file has no extension)\<close>
  and \<^verbatim>\<open>// Returns the path in front of the filename\<close>.
  \<^verbatim>\<open>INDEX_NONE\<close> is the engine's "not found" index.
\<close>

definition INDEX_NONE :: int where
  "INDEX_NONE = - 1"

definition IsSlashOrBackslash :: "char \<Rightarrow> bool" where
  "IsSlashOrBackslash C = (C = CHR ''/'' \<or> C = CHR 0x5C)"

definition IsNotSlashOrBackslash :: "char \<Rightarrow> bool" where
  "IsNotSlashOrBackslash C = (C \<noteq> CHR ''/'' \<and> C \<noteq> CHR 0x5C)"

text \<open>
  \<^verbatim>\<open>FString::FindLastCharByPredicate(Pred, Count)\<close>: scans backwards from index
  \<open>Count - 1\<close> and returns the first index whose character satisfies the predicate.
\<close>

fun FindLastCharByPredicate_Count :: "(char \<Rightarrow> bool) \<Rightarrow> string \<Rightarrow> nat \<Rightarrow> int" where
  "FindLastCharByPredicate_Count Pred S 0 = INDEX_NONE"
| "FindLastCharByPredicate_Count Pred S (Suc i) =
     (if Pred (S ! i) then int i else FindLastCharByPredicate_Count Pred S i)"

definition FindLastCharByPredicate :: "(char \<Rightarrow> bool) \<Rightarrow> string \<Rightarrow> int" where
  "FindLastCharByPredicate Pred S = FindLastCharByPredicate_Count Pred S (length S)"

text \<open>\<^verbatim>\<open>FString::FindLastChar(C, Index)\<close>: the index it stores, \<^verbatim>\<open>INDEX_NONE\<close> when it returns false.\<close>

definition FindLastChar :: "char \<Rightarrow> string \<Rightarrow> int" where
  "FindLastChar C S = FindLastCharByPredicate (\<lambda>X. X = C) S"

text \<open>
  \<^verbatim>\<open>FString::Left(Count)\<close> clamps \<open>Count\<close> to the length. \<^verbatim>\<open>FString::Mid(Start, Count)\<close>
  is empty for a negative \<open>Count\<close> and otherwise the characters from \<open>Start\<close>, clamped
  to the string, up to \<open>Start + Count\<close>, clamped likewise.
\<close>

definition Left :: "string \<Rightarrow> int \<Rightarrow> string" where
  "Left S Count = take (nat Count) S"

definition Mid :: "string \<Rightarrow> int \<Rightarrow> int \<Rightarrow> string" where
  "Mid S Start Count =
     (if Count \<ge> 0
      then (let Length = int (length S);
                ClampedStart = max 0 (min Start Length);
                End = max ClampedStart (min (Count + Start) Length)
            in take (nat (End - ClampedStart)) (drop (nat ClampedStart) S))
      else [])"

definition ChangeExtension :: "string \<Rightarrow> string \<Rightarrow> string" where
  "ChangeExtension InPath InNewExtension =
     (let Pos0 = FindLastChar CHR ''.'' InPath;
          Pos = (if Pos0 \<noteq> INDEX_NONE
                 then (let PathEndPos = FindLastCharByPredicate IsSlashOrBackslash InPath
                       in if PathEndPos \<noteq> INDEX_NONE \<and> PathEndPos > Pos0 then INDEX_NONE else Pos0)
                 else Pos0)
      in if Pos \<noteq> INDEX_NONE
         then Left InPath Pos
              @ (if InNewExtension \<noteq> [] \<and> hd InNewExtension \<noteq> CHR ''.'' then ''.'' else [])
              @ InNewExtension
         else InPath)"

definition GetPath :: "string \<Rightarrow> string" where
  "GetPath InPath =
     (let Pos = FindLastCharByPredicate IsSlashOrBackslash InPath
      in if Pos \<noteq> INDEX_NONE then Left InPath Pos else [])"

text \<open>
  \<^verbatim>\<open>FPaths::GetCleanFilename\<close>, \<^verbatim>\<open>FPaths::GetExtension\<close> and \<^verbatim>\<open>FPaths::GetBaseFilename\<close>
  (with \<^verbatim>\<open>bRemovePath = true\<close>): what the engine calls the file name, the extension and
  the base file name of a path. The plugin does not call them; they say what a path's
  extension and base name are. \<^verbatim>\<open>GetExtension\<close> ends in a \<^verbatim>\<open>Mid\<close> with no count, which
  is the rest of the string.
\<close>

definition GetCleanFilename :: "string \<Rightarrow> string" where
  "GetCleanFilename InPath =
     (let EndPos = FindLastCharByPredicate IsNotSlashOrBackslash InPath + 1;
          StartPos = FindLastCharByPredicate IsSlashOrBackslash InPath + 1
      in if StartPos \<le> EndPos then Mid InPath StartPos (EndPos - StartPos) else [])"

definition GetExtension :: "string \<Rightarrow> bool \<Rightarrow> string" where
  "GetExtension InPath bIncludeDot =
     (let Filename = GetCleanFilename InPath;
          DotPos = FindLastChar CHR ''.'' Filename
      in if DotPos \<noteq> INDEX_NONE
         then drop (nat (DotPos + (if bIncludeDot then 0 else 1))) Filename
         else [])"

definition GetBaseFilename :: "string \<Rightarrow> string" where
  "GetBaseFilename InPath =
     (let Wk = GetCleanFilename InPath;
          ExtPos = FindLastChar CHR ''.'' Wk
      in if ExtPos \<noteq> INDEX_NONE then Left Wk ExtPos else Wk)"

subsection \<open>The host engine\<close>

text \<open>
  The engine operations \<^verbatim>\<open>ExportThumbnailAsPNG\<close> calls. \<open>'obj\<close> is a loaded
  \<^verbatim>\<open>UObject*\<close>, \<open>'iw\<close> an \<^verbatim>\<open>IImageWrapper\<close>; \<open>None\<close> is the null pointer.
  \<open>GetAsset\<close> stands for \<^verbatim>\<open>GetAssetByObjectPath(...)\<close> followed by \<^verbatim>\<open>GetAsset()\<close>.
  \<open>RenderThumbnail\<close> returns the \<^verbatim>\<open>FObjectThumbnail\<close> it fills, which carries its own
  width and height. \<open>SetRaw\<close> and \<open>MakeDirectory\<close> return a success flag that the plugin
  ignores. The two \<^verbatim>\<open>LoadModuleChecked\<close> calls only fetch a loaded engine module and are
  not modelled.
\<close>

record ('w, 'obj, 'iw) Engine =
  GetAsset :: "string \<Rightarrow> 'w \<Rightarrow> 'obj option \<times> 'w"
  RenderThumbnail ::
    "'obj \<Rightarrow> int32 \<Rightarrow> int32 \<Rightarrow> EThumbnailTextureFlushMode \<Rightarrow> 'w \<Rightarrow> FObjectThumbnail \<times> 'w"
  CreateImageWrapper :: "EImageFormat \<Rightarrow> 'w \<Rightarrow> 'iw option \<times> 'w"
  SetRaw ::
    "'iw \<Rightarrow> uint8 list \<Rightarrow> int \<Rightarrow> int32 \<Rightarrow> int32 \<Rightarrow> ERGBFormat \<Rightarrow> int32 \<Rightarrow> 'w \<Rightarrow> bool \<times> 'w"
  GetCompressed :: "'iw \<Rightarrow> int32 \<Rightarrow> 'w \<Rightarrow> uint8 list \<times> 'w"
  DirectoryExists :: "string \<Rightarrow> 'w \<Rightarrow> bool"
  MakeDirectory :: "string \<Rightarrow> bool \<Rightarrow> 'w \<Rightarrow> bool \<times> 'w"
  SaveArrayToFile :: "uint8 list \<Rightarrow> string \<Rightarrow> 'w \<Rightarrow> bool \<times> 'w"

text \<open>
  One entry of the call record: the engine call the plugin made, with its arguments and
  the result the engine returned. \<open>Ev_UE_LOG\<close> is a log line.
\<close>

datatype ('obj, 'iw) EngineCall =
    Ev_UE_LOG ELogVerbosity string
  | Ev_GetAsset string "'obj option"
  | Ev_RenderThumbnail 'obj int32 int32 EThumbnailTextureFlushMode FObjectThumbnail
  | Ev_CreateImageWrapper EImageFormat "'iw option"
  | Ev_SetRaw 'iw "uint8 list" int int32 int32 ERGBFormat int32 bool
  | Ev_GetCompressed 'iw int32 "uint8 list"
  | Ev_DirectoryExists string bool
  | Ev_MakeDirectory string bool bool
  | Ev_SaveArrayToFile "uint8 list" string bool

subsection \<open>Module lifecycle hooks\<close>

definition StartupModule :: "'w \<Rightarrow> ('obj, 'iw) EngineCall list \<times> 'w" where
  "StartupModule w = ([Ev_UE_LOG Warning ''ThumbnailExporter Plugin Loaded Successfully!''], w)"

definition ShutdownModule :: "'w \<Rightarrow> ('obj, 'iw) EngineCall list \<times> 'w" where
  "ShutdownModule w = ([Ev_UE_LOG Warning ''ThumbnailExporter Plugin Unloaded!''], w)"

definition PrintTestMessage :: "'w \<Rightarrow> ('obj, 'iw) EngineCall list \<times> 'w" where
  "PrintTestMessage w =
     ([Ev_UE_LOG Warning ''ThumbnailExporter Test Message: Plugin is Active and Working!''], w)"

subsection \<open>The thumbnail export routine\<close>

text \<open>
  \<^verbatim>\<open>UThumbnailExporter::ExportThumbnailAsPNG(ObjectPath, OutputPath)\<close> returns
  \<^verbatim>\<open>void\<close>: the model returns the calls made and the engine state, and nothing else.
  Each early \<^verbatim>\<open>return\<close> of the source is a branch that ends the call record.
\<close>

definition ExportThumbnailAsPNG ::
  "('w, 'obj, 'iw) Engine \<Rightarrow> string \<Rightarrow> string \<Rightarrow> 'w \<Rightarrow> ('obj, 'iw) EngineCall list \<times> 'w" where
  "ExportThumbnailAsPNG E ObjectPath OutputPath w0 =
     (if ObjectPath = [] \<or> OutputPath = []
      then ([Ev_UE_LOG Warning ''Invalid input parameters!''], w0)
      else
        let NewOutputPath = ChangeExtension OutputPath ''.jpg'';
            (MyObject, w1) = GetAsset E ObjectPath w0;
            t1 = [Ev_GetAsset ObjectPath MyObject]
        in
        case MyObject of
          None \<Rightarrow> (t1 @ [Ev_UE_LOG Warning (''Asset not found at path: '' @ ObjectPath)], w1)
        | Some Obj \<Rightarrow> (
        let ThumbnailSize = 256;
            (ObjectThumbnail, w2) =
              RenderThumbnail E Obj ThumbnailSize ThumbnailSize AlwaysFlush w1;
            t2 = t1 @ [Ev_RenderThumbnail Obj ThumbnailSize ThumbnailSize AlwaysFlush ObjectThumbnail]
        in
        if length (GetUncompressedImageData ObjectThumbnail) = 0
        then (t2 @ [Ev_UE_LOG Warning (''No thumbnail data for asset: '' @ ObjectPath)], w2)
        else
        let (ImageWrapper, w3) = CreateImageWrapper E JPEG w2;
            t3 = t2 @ [Ev_CreateImageWrapper JPEG ImageWrapper]
        in
        case ImageWrapper of
          None \<Rightarrow> (t3 @ [Ev_UE_LOG Warning ''Failed to create ImageWrapper!''], w3)
        | Some IW \<Rightarrow> (
        let (RawOk, w4) =
              SetRaw E IW
                (GetUncompressedImageData ObjectThumbnail)
                (int (length (GetUncompressedImageData ObjectThumbnail)))
                (GetImageWidth ObjectThumbnail)
                (GetImageHeight ObjectThumbnail)
                BGRA 8 w3;
            t4 = t3 @ [Ev_SetRaw IW
                (GetUncompressedImageData ObjectThumbnail)
                (int (length (GetUncompressedImageData ObjectThumbnail)))
                (GetImageWidth ObjectThumbnail)
                (GetImageHeight ObjectThumbnail)
                BGRA 8 RawOk];
            (CompressedByteArray, w5) = GetCompressed E IW 95 w4;
            t5 = t4 @ [Ev_GetCompressed IW 95 CompressedByteArray]
        in
        if length CompressedByteArray = 0
        then (t5 @ [Ev_UE_LOG Warning ''Failed to compress image data!''], w5)
        else
        let OutputDirectory = GetPath NewOutputPath;
            Exists = DirectoryExists E OutputDirectory w5;
            t6 = t5 @ [Ev_DirectoryExists OutputDirectory Exists];
            (t7, w7) =
              (if \<not> Exists
               then (let (Made, w6) = MakeDirectory E OutputDirectory True w5
                     in (t6 @ [Ev_MakeDirectory OutputDirectory True Made], w6))
               else (t6, w5));
            (Saved, w8) = SaveArrayToFile E CompressedByteArray NewOutputPath w7;
            t8 = t7 @ [Ev_SaveArrayToFile CompressedByteArray NewOutputPath Saved]
        in
        if Saved
        then (t8 @ [Ev_UE_LOG Log (''Exported thumbnail to: '' @ NewOutputPath)], w8)
        else (t8 @ [Ev_UE_LOG Warning (''Failed to save thumbnail to: '' @ NewOutputPath)], w8))))"

subsection \<open>A small engine for running the routine\<close>

text \<open>
  To run the routine on concrete inputs, an engine over a disk that is a list of
  directories and a list of files. Its asset registry knows one asset, its renderer
  returns the thumbnail it is given, its encoder returns four bytes, creating a
  directory always works, and writing a file works when the disk is writable.
\<close>

record Disk =
  Directories :: "string list"
  Files :: "(string \<times> uint8 list) list"

definition ExampleEngine :: "FObjectThumbnail \<Rightarrow> bool \<Rightarrow> (Disk, nat, nat) Engine" where
  "ExampleEngine Thumb Writable =
     \<lparr> GetAsset = (\<lambda>p w. (if p = ''/Game/Props/Rock.Rock'' then Some 7 else None, w)),
       RenderThumbnail = (\<lambda>obj a b m w. (Thumb, w)),
       CreateImageWrapper = (\<lambda>f w. (Some 1, w)),
       SetRaw = (\<lambda>iw d n a b f bits w. (True, w)),
       GetCompressed = (\<lambda>iw q w. ([0xFF, 0xD8, 0xFF, 0xD9], w)),
       DirectoryExists = (\<lambda>d w. d \<in> set (Directories w)),
       MakeDirectory = (\<lambda>d tree w. (True, w\<lparr>Directories := d # Directories w\<rparr>)),
       SaveArrayToFile =
         (\<lambda>b p w. if Writable then (True, w\<lparr>Files := (p, b) # Files w\<rparr>) else (False, w)) \<rparr>"

definition EmptyDisk :: Disk where
  "EmptyDisk = \<lparr> Directories = [], Files = [] \<rparr>"

text \<open>The thumbnail of a texture two pixels wide and one high: eight bytes of BGRA.\<close>

definition SmallThumbnail :: FObjectThumbnail where
  "SmallThumbnail =
     \<lparr> GetImageWidth = 2, GetImageHeight = 1,
       GetUncompressedImageData = [0, 0, 255, 255, 0, 255, 0, 255] \<rparr>"

text \<open>A thumbnail of the requested size, 256 by 256 pixels of four bytes.\<close>

definition SquareThumbnail :: FObjectThumbnail where
  "SquareThumbnail =
     \<lparr> GetImageWidth = 256, GetImageHeight = 256,
       GetUncompressedImageData = replicate (256 * 256 * 4) 255 \<rparr>"

subsection \<open>An engine with an encoder and folders\<close>

text \<open>
  A second engine, whose answers depend on its state. It notes the asset paths looked
  up and the renders requested. A new image wrapper holds no image; \<open>SetRaw\<close> stores the
  pixel data with the width and height it is given, and refuses input whose length,
  format or bit depth is not the one announced; \<open>GetCompressed\<close> returns a two-byte
  header, the quality, and the pixels held, or nothing when no image is held. A folder
  can be made only when \<open>CanMake\<close> holds, and a file can be written only when \<open>CanWrite\<close>
  holds and the folder of the file exists.
\<close>

record Editor =
  Loaded :: "string list"
  Rendered :: "(nat \<times> int32 \<times> int32) list"
  Held :: "(uint8 list \<times> int32 \<times> int32) option"
  Folders :: "string list"
  Written :: "(string \<times> uint8 list) list"

definition EditorEngine :: "FObjectThumbnail \<Rightarrow> bool \<Rightarrow> bool \<Rightarrow> (Editor, nat, nat) Engine" where
  "EditorEngine Thumb CanMake CanWrite =
     \<lparr> GetAsset = (\<lambda>p w. (if p = ''/Game/Props/Rock.Rock'' then Some 7 else None,
                             w\<lparr>Loaded := p # Loaded w\<rparr>)),
       RenderThumbnail = (\<lambda>obj a b m w. (Thumb, w\<lparr>Rendered := (obj, a, b) # Rendered w\<rparr>)),
       CreateImageWrapper = (\<lambda>f w. (if f = JPEG then Some 1 else None, w\<lparr>Held := None\<rparr>)),
       SetRaw = (\<lambda>iw d n a b f bits w.
                  if n = int (length d) \<and> f = BGRA \<and> bits = 8
                  then (True, w\<lparr>Held := Some (d, a, b)\<rparr>) else (False, w)),
       GetCompressed = (\<lambda>iw q w.
                  (case Held w of None \<Rightarrow> [] | Some (d, a, b) \<Rightarrow> [0xFF, 0xD8, ucast q] @ d, w)),
       DirectoryExists = (\<lambda>d w. d \<in> set (Folders w)),
       MakeDirectory = (\<lambda>d tree w.
                  if CanMake then (True, w\<lparr>Folders := d # Folders w\<rparr>) else (False, w)),
       SaveArrayToFile = (\<lambda>b p w.
                  if CanWrite \<and> GetPath p \<in> set (Folders w)
                  then (True, w\<lparr>Written := (p, b) # Written w\<rparr>) else (False, w)) \<rparr>"

definition NewEditor :: Editor where
  "NewEditor = \<lparr> Loaded = [], Rendered = [], Held = None, Folders = [], Written = [] \<rparr>"

text \<open>
  The states this engine goes through when the known asset is exported: after the
  lookup, after the render, and with the raw image of the thumbnail in the wrapper.
\<close>

definition AfterLookup :: Editor where
  "AfterLookup = NewEditor\<lparr>Loaded := [''/Game/Props/Rock.Rock'']\<rparr>"

definition AfterRender :: Editor where
  "AfterRender = AfterLookup\<lparr>Rendered := [(7, 256, 256)]\<rparr>"

definition Holding :: "FObjectThumbnail \<Rightarrow> Editor" where
  "Holding Thumb =
     AfterRender\<lparr>Held := Some (GetUncompressedImageData Thumb,
                                GetImageWidth Thumb, GetImageHeight Thumb)\<rparr>"

text \<open>The width and height of the raw image the wrapper holds in a state.\<close>

definition HeldSize :: "nat \<Rightarrow> Editor \<Rightarrow> int32 \<times> int32" where
  "HeldSize iw u = (case Held u of None \<Rightarrow> (0, 0) | Some (d, a, b) \<Rightarrow> (a, b))"

section \<open>Properties\<close>

subsection \<open>The paths of the routine\<close>

text \<open>
  The routine has six ways to end: five early returns and the write, which succeeds or
  fails. The routine is unfolded with the two facts below.
\<close>

lemmas Export_unfold = ExportThumbnailAsPNG_def Let_def

subsection \<open>The path functions\<close>

text \<open>
  \<^verbatim>\<open>FindLastCharByPredicate\<close> returns \<^verbatim>\<open>INDEX_NONE\<close> exactly when no character
  satisfies the predicate, and otherwise the last index that does.
\<close>

lemma FindLast_none:
  "FindLastCharByPredicate_Count Pred S n = INDEX_NONE \<longleftrightarrow> (\<forall>i<n. \<not> Pred (S ! i))"
  by (induction n) (auto simp: INDEX_NONE_def less_Suc_eq)

lemma FindLast_eqI:
  "i < n \<Longrightarrow> Pred (S ! i) \<Longrightarrow> (\<forall>j. i < j \<and> j < n \<longrightarrow> \<not> Pred (S ! j)) \<Longrightarrow>
   FindLastCharByPredicate_Count Pred S n = int i"
  by (induction n) (auto simp: less_Suc_eq)

lemma FindLast_found:
  "FindLastCharByPredicate_Count Pred S n \<noteq> INDEX_NONE \<Longrightarrow>
   \<exists>i<n. FindLastCharByPredicate_Count Pred S n = int i \<and> Pred (S ! i)
         \<and> (\<forall>j. i < j \<and> j < n \<longrightarrow> \<not> Pred (S ! j))"
proof (induction n)
  case 0
  then show ?case by simp
next
  case (Suc n)
  show ?case
  proof (cases "Pred (S ! n)")
    case True
    then show ?thesis by (intro exI [of _ n]) auto
  next
    case False
    with Suc.prems have "FindLastCharByPredicate_Count Pred S n \<noteq> INDEX_NONE" by simp
    from Suc.IH [OF this] obtain i where i: "i < n"
      "FindLastCharByPredicate_Count Pred S n = int i" "Pred (S ! i)"
      "\<forall>j. i < j \<and> j < n \<longrightarrow> \<not> Pred (S ! j)" by blast
    with False show ?thesis
      by (intro exI [of _ i]) (auto simp: less_Suc_eq)
  qed
qed

lemma FindLast_skip:
  "k \<le> n \<Longrightarrow> (\<forall>j. k \<le> j \<and> j < n \<longrightarrow> \<not> Pred (S ! j)) \<Longrightarrow>
   FindLastCharByPredicate_Count Pred S n = FindLastCharByPredicate_Count Pred S k"
proof (induction n)
  case 0
  then show ?case by simp
next
  case (Suc n)
  show ?case
  proof (cases "k = Suc n")
    case True
    then show ?thesis by simp
  next
    case False
    with Suc.prems have "k \<le> n" "\<not> Pred (S ! n)"
      "\<forall>j. k \<le> j \<and> j < n \<longrightarrow> \<not> Pred (S ! j)" by auto
    with Suc.IH show ?thesis by simp
  qed
qed

lemma FindLast_cong:
  "(\<forall>i<n. S ! i = T ! i) \<Longrightarrow>
   FindLastCharByPredicate_Count Pred S n = FindLastCharByPredicate_Count Pred T n"
  by (induction n) auto

lemma FindLast_ge: "INDEX_NONE \<le> FindLastCharByPredicate_Count Pred S n"
  by (induction n) (auto simp: INDEX_NONE_def)

text \<open>
  Changing the extension to \<^verbatim>\<open>.jpg\<close> has two outcomes. Either the path comes back as it
  was, and then every dot in it is followed by a separator (no dot at all, or the last
  dot lies before the last separator); or the text from the last dot on is replaced,
  and then that dot lies in the file name.
\<close>

lemma ChangeExtension_jpg_cases:
  obtains (Unchanged) "ChangeExtension OutputPath ''.jpg'' = OutputPath"
      "\<forall>j<length OutputPath. OutputPath ! j = CHR ''.'' \<longrightarrow>
         (\<exists>i. j < i \<and> i < length OutputPath \<and> IsSlashOrBackslash (OutputPath ! i))"
  | (Swapped) k where "k < length OutputPath" "OutputPath ! k = CHR ''.''"
      "\<forall>j. k < j \<and> j < length OutputPath \<longrightarrow> OutputPath ! j \<noteq> CHR ''.''"
      "\<forall>j. k < j \<and> j < length OutputPath \<longrightarrow> \<not> IsSlashOrBackslash (OutputPath ! j)"
      "ChangeExtension OutputPath ''.jpg'' = take k OutputPath @ ''.jpg''"
proof -
  define d where "d = FindLastCharByPredicate_Count (\<lambda>X. X = CHR ''.'') OutputPath (length OutputPath)"
  define s where "s = FindLastCharByPredicate_Count IsSlashOrBackslash OutputPath (length OutputPath)"
  have CE: "ChangeExtension OutputPath ''.jpg'' =
      (if d \<noteq> INDEX_NONE \<and> \<not> (s \<noteq> INDEX_NONE \<and> s > d)
       then take (nat d) OutputPath @ ''.jpg'' else OutputPath)"
    by (simp add: ChangeExtension_def Let_def d_def s_def Left_def FindLastChar_def
          FindLastCharByPredicate_def)
  show thesis
  proof (cases "d \<noteq> INDEX_NONE \<and> \<not> (s \<noteq> INDEX_NONE \<and> s > d)")
    case False
    with CE have same: "ChangeExtension OutputPath ''.jpg'' = OutputPath" by auto
    have "\<exists>i. j < i \<and> i < length OutputPath \<and> IsSlashOrBackslash (OutputPath ! i)"
      if j: "j < length OutputPath" "OutputPath ! j = CHR ''.''" for j
    proof -
      from j have "d \<noteq> INDEX_NONE"
        unfolding d_def by (auto simp: FindLast_none)
      from FindLast_found [OF this [unfolded d_def]]
      obtain k where k: "k < length OutputPath" "d = int k"
        "\<forall>j. k < j \<and> j < length OutputPath \<longrightarrow> OutputPath ! j \<noteq> CHR ''.''"
        unfolding d_def by blast
      from k j have jk: "j \<le> k" by (meson not_le_imp_less)
      from False \<open>d \<noteq> INDEX_NONE\<close> have "s \<noteq> INDEX_NONE" "s > d" by auto
      from FindLast_found [OF this(1) [unfolded s_def]]
      obtain i where i: "i < length OutputPath" "s = int i" "IsSlashOrBackslash (OutputPath ! i)"
        unfolding s_def by blast
      from \<open>s > d\<close> i k jk have "j < i" by simp
      with i show ?thesis by blast
    qed
    with same show thesis by (intro Unchanged) simp_all
  next
    case True
    then have "d \<noteq> INDEX_NONE" by simp
    from FindLast_found [OF this [unfolded d_def]]
    obtain k where k: "k < length OutputPath" "d = int k" "OutputPath ! k = CHR ''.''"
      "\<forall>j. k < j \<and> j < length OutputPath \<longrightarrow> OutputPath ! j \<noteq> CHR ''.''"
      unfolding d_def by blast
    have noslash: "\<not> IsSlashOrBackslash (OutputPath ! j)" if j: "k < j" "j < length OutputPath" for j
    proof (cases "s = INDEX_NONE")
      case True
      then have "\<forall>i<length OutputPath. \<not> IsSlashOrBackslash (OutputPath ! i)"
        unfolding s_def by (simp only: FindLast_none)
      with j show ?thesis by simp
    next
      case False
      from FindLast_found [OF this [unfolded s_def]]
      obtain i where i: "i < length OutputPath" "s = int i"
        "\<forall>j. i < j \<and> j < length OutputPath \<longrightarrow> \<not> IsSlashOrBackslash (OutputPath ! j)"
        unfolding s_def by blast
      from True False i k have "i \<le> k" by simp
      with i j show ?thesis by simp
    qed
    from True CE k have "ChangeExtension OutputPath ''.jpg'' = take k OutputPath @ ''.jpg''"
      by auto
    with k noslash show thesis by (intro Swapped [of k]) simp_all
  qed
qed

text \<open>A path in which every dot is followed by a separator has no extension.\<close>

lemma set_Mid:
  assumes "x \<in> set (Mid S Start Count)" "0 \<le> Start"
  shows "\<exists>m. nat Start \<le> m \<and> m < length S \<and> S ! m = x"
proof -
  define a where "a = nat (max 0 (min Start (int (length S))))"
  from assms(1) have "x \<in> set (drop a S)"
    by (auto simp: Mid_def Let_def a_def split: if_splits dest: in_set_takeD)
  then obtain i where i: "i < length (drop a S)" "drop a S ! i = x"
    by (auto simp: in_set_conv_nth)
  then have lt: "a + i < length S" by simp
  with i have nth: "S ! (a + i) = x" by simp
  from lt assms(2) have "nat Start \<le> a + i"
    unfolding a_def by (cases "Start \<le> int (length S)") auto
  with lt nth show ?thesis by blast
qed

lemma no_extension_when_unchanged:
  assumes "\<forall>j<length P. P ! j = CHR ''.'' \<longrightarrow>
         (\<exists>i. j < i \<and> i < length P \<and> IsSlashOrBackslash (P ! i))"
  shows "GetExtension P b = []"
proof -
  let ?s = "FindLastCharByPredicate_Count IsSlashOrBackslash P (length P)"
  have start: "0 \<le> ?s + 1"
  proof (cases "?s = INDEX_NONE")
    case True then show ?thesis by (simp add: INDEX_NONE_def)
  next
    case False
    from FindLast_found [OF this] show ?thesis by auto
  qed
  have "CHR ''.'' \<notin> set (GetCleanFilename P)"
  proof
    assume "CHR ''.'' \<in> set (GetCleanFilename P)"
    then have "CHR ''.'' \<in> set (Mid P (?s + 1)
        (FindLastCharByPredicate_Count IsNotSlashOrBackslash P (length P) + 1 - (?s + 1)))"
      by (auto simp: GetCleanFilename_def Let_def FindLastCharByPredicate_def split: if_splits)
    from set_Mid [OF this start] obtain m where m: "nat (?s + 1) \<le> m" "m < length P"
      "P ! m = CHR ''.''" by blast
    with assms obtain i where i: "m < i" "i < length P" "IsSlashOrBackslash (P ! i)" by blast
    then have ne: "?s \<noteq> INDEX_NONE" by (auto simp: FindLast_none)
    from FindLast_found [OF ne] obtain l where l: "l < length P" "?s = int l"
      "\<forall>j. l < j \<and> j < length P \<longrightarrow> \<not> IsSlashOrBackslash (P ! j)" by blast
    from m l have "l < m" by simp
    with i l show False by auto
  qed
  then have "\<forall>i<length (GetCleanFilename P). \<not> (GetCleanFilename P ! i = CHR ''.'')"
    by (auto simp: in_set_conv_nth)
  then have "FindLastChar CHR ''.'' (GetCleanFilename P) = INDEX_NONE"
    by (simp only: FindLastChar_def FindLastCharByPredicate_def FindLast_none)
  then show ?thesis
    by (simp add: GetExtension_def Let_def)
qed

text \<open>
  When the extension is replaced, the last separator stays where it was, before the
  dot, and the file name keeps its stem: the old name is the stem, the dot and a rest
  without dots, the new name is the stem and \<^verbatim>\<open>.jpg\<close>.
\<close>

lemma last_slash_swapped:
  assumes k: "k < length P"
      and dot: "P ! k = CHR ''.''"
      and noslash: "\<forall>j. k < j \<and> j < length P \<longrightarrow> \<not> IsSlashOrBackslash (P ! j)"
  shows "FindLastCharByPredicate IsSlashOrBackslash (take k P @ ''.jpg'')
           = FindLastCharByPredicate IsSlashOrBackslash P"
    and "FindLastCharByPredicate IsSlashOrBackslash P < int k"
proof -
  let ?r = "take k P @ ''.jpg''"
  let ?fl = "FindLastCharByPredicate_Count IsSlashOrBackslash"
  have len: "length ?r = k + 4"
    using k by simp
  have "\<not> IsSlashOrBackslash (P ! k)"
    using dot by (simp add: IsSlashOrBackslash_def)
  with noslash have "\<forall>j. k \<le> j \<and> j < length P \<longrightarrow> \<not> IsSlashOrBackslash (P ! j)"
    by (metis le_neq_implies_less)
  with k have p: "?fl P (length P) = ?fl P k"
    by (intro FindLast_skip) simp_all
  have tail: "\<not> IsSlashOrBackslash (?r ! j)" if "k \<le> j" "j < k + 4" for j
  proof -
    from that have "j - k = 0 \<or> j - k = 1 \<or> j - k = 2 \<or> j - k = 3" by arith
    moreover from that k have "?r ! j = ''.jpg'' ! (j - k)"
      by (simp add: nth_append)
    ultimately show ?thesis
      by (auto simp: IsSlashOrBackslash_def)
  qed
  then have "?fl ?r (k + 4) = ?fl ?r k"
    by (intro FindLast_skip) simp_all
  also have "\<dots> = ?fl P k"
    using k by (intro FindLast_cong) (simp add: nth_append)
  finally have r: "?fl ?r (length ?r) = ?fl P k"
    unfolding len .
  from p r show "FindLastCharByPredicate IsSlashOrBackslash ?r
           = FindLastCharByPredicate IsSlashOrBackslash P"
    by (simp only: FindLastCharByPredicate_def)
  show "FindLastCharByPredicate IsSlashOrBackslash P < int k"
  proof (cases "?fl P k = INDEX_NONE")
    case True
    with p show ?thesis by (simp add: FindLastCharByPredicate_def INDEX_NONE_def)
  next
    case False
    from FindLast_found [OF this] obtain i where "i < k" "?fl P k = int i" by blast
    with p show ?thesis by (simp add: FindLastCharByPredicate_def)
  qed
qed

lemma GetCleanFilename_file:
  assumes "P \<noteq> []" "\<not> IsSlashOrBackslash (last P)"
  shows "GetCleanFilename P = drop (nat (FindLastCharByPredicate IsSlashOrBackslash P + 1)) P"
proof -
  let ?s = "FindLastCharByPredicate IsSlashOrBackslash P"
  from assms have "FindLastCharByPredicate_Count IsNotSlashOrBackslash P (length P)
      = int (length P - 1)"
    by (intro FindLast_eqI)
       (auto simp: last_conv_nth IsNotSlashOrBackslash_def IsSlashOrBackslash_def)
  with assms(1) have e: "FindLastCharByPredicate IsNotSlashOrBackslash P + 1 = int (length P)"
    by (cases P) (simp_all add: FindLastCharByPredicate_def)
  have lo: "0 \<le> ?s + 1"
    using FindLast_ge [of IsSlashOrBackslash P "length P"]
    by (simp add: FindLastCharByPredicate_def INDEX_NONE_def)
  have hi: "?s + 1 \<le> int (length P)"
  proof (cases "?s = INDEX_NONE")
    case True then show ?thesis by (simp add: INDEX_NONE_def)
  next
    case False
    from FindLast_found [OF this [unfolded FindLastCharByPredicate_def]]
    show ?thesis by (auto simp: FindLastCharByPredicate_def)
  qed
  from lo hi have "Mid P (?s + 1) (int (length P) - (?s + 1)) = drop (nat (?s + 1)) P"
    by (simp add: Mid_def Let_def max_def min_def)
  with e hi show ?thesis
    by (simp add: GetCleanFilename_def Let_def)
qed

lemma FindLastChar_dot_append:
  assumes "CHR ''.'' \<notin> set e"
  shows "FindLastChar CHR ''.'' (f @ CHR ''.'' # e) = int (length f)"
  unfolding FindLastChar_def FindLastCharByPredicate_def
proof (rule FindLast_eqI)
  show "length f < length (f @ CHR ''.'' # e)" by simp
  show "(f @ CHR ''.'' # e) ! length f = CHR ''.''" by simp
  show "\<forall>j. length f < j \<and> j < length (f @ CHR ''.'' # e) \<longrightarrow> (f @ CHR ''.'' # e) ! j \<noteq> CHR ''.''"
  proof (intro allI impI)
    fix j assume j: "length f < j \<and> j < length (f @ CHR ''.'' # e)"
    then have "(f @ CHR ''.'' # e) ! j = e ! (j - length f - 1)"
      by (auto simp: nth_append nth_Cons')
    moreover from j have "j - length f - 1 < length e" by auto
    ultimately show "(f @ CHR ''.'' # e) ! j \<noteq> CHR ''.''"
      using assms by (metis nth_mem)
  qed
qed

lemma swapped_file_name:
  assumes k: "k < length P"
      and dot: "P ! k = CHR ''.''"
      and nodot: "\<forall>j. k < j \<and> j < length P \<longrightarrow> P ! j \<noteq> CHR ''.''"
      and noslash: "\<forall>j. k < j \<and> j < length P \<longrightarrow> \<not> IsSlashOrBackslash (P ! j)"
  defines "a \<equiv> nat (FindLastCharByPredicate IsSlashOrBackslash P + 1)"
  shows "GetCleanFilename (take k P @ ''.jpg'') = drop a (take k P) @ ''.jpg''"
    and "GetCleanFilename P = drop a (take k P) @ CHR ''.'' # drop (Suc k) P"
    and "CHR ''.'' \<notin> set (drop (Suc k) P)"
proof -
  note ls = last_slash_swapped [OF k dot noslash]
  from ls(2) have ak: "a \<le> k" unfolding a_def by simp
  have "GetCleanFilename (take k P @ ''.jpg'')
      = drop (nat (FindLastCharByPredicate IsSlashOrBackslash (take k P @ ''.jpg'') + 1))
          (take k P @ ''.jpg'')"
    by (intro GetCleanFilename_file) (simp_all add: IsSlashOrBackslash_def)
  with ls(1) ak k show "GetCleanFilename (take k P @ ''.jpg'') = drop a (take k P) @ ''.jpg''"
    by (simp add: a_def)
  from k have ne: "P \<noteq> []" by auto
  have "\<not> IsSlashOrBackslash (last P)"
  proof (cases "k = length P - 1")
    case True
    with ne dot show ?thesis by (simp add: last_conv_nth IsSlashOrBackslash_def)
  next
    case False
    with k noslash ne show ?thesis by (simp add: last_conv_nth)
  qed
  with ne have "GetCleanFilename P = drop a P"
    unfolding a_def by (rule GetCleanFilename_file)
  also from k have "P = take k P @ P ! k # drop (Suc k) P"
    by (simp add: id_take_nth_drop)
  then have "drop a P = drop a (take k P @ P ! k # drop (Suc k) P)"
    by simp
  also from ak k have "\<dots> = drop a (take k P) @ P ! k # drop (Suc k) P"
    by simp
  finally show "GetCleanFilename P = drop a (take k P) @ CHR ''.'' # drop (Suc k) P"
    using dot by simp
  show "CHR ''.'' \<notin> set (drop (Suc k) P)"
  proof
    assume "CHR ''.'' \<in> set (drop (Suc k) P)"
    then obtain i where "i < length (drop (Suc k) P)" "drop (Suc k) P ! i = CHR ''.''"
      by (auto simp: in_set_conv_nth)
    then have "Suc k + i < length P" "P ! (Suc k + i) = CHR ''.''" by simp_all
    with nodot show False by auto
  qed
qed

lemma dotted_file_name:
  assumes "CHR ''.'' \<notin> set e" "GetCleanFilename P = f @ CHR ''.'' # e"
  shows "GetExtension P False = e" and "GetBaseFilename P = f"
proof -
  have d: "FindLastChar CHR ''.'' (f @ CHR ''.'' # e) = int (length f)"
    using assms(1) by (rule FindLastChar_dot_append)
  have n: "nat (int (length f) + 1) = Suc (length f)" by simp
  from assms(2) d show "GetExtension P False = e"
    by (simp add: GetExtension_def Let_def INDEX_NONE_def n)
  from assms(2) d show "GetBaseFilename P = f"
    by (simp only: GetBaseFilename_def Let_def INDEX_NONE_def Left_def) simp
qed

text \<open>
  The path the routine writes, \<^verbatim>\<open>ChangeExtension(OutputPath, ".jpg")\<close>, against the
  caller's output path: the extension is \<^verbatim>\<open>jpg\<close>, unless the caller's path has no
  extension, in which case the path is the caller's; the directory part and the base
  file name are the caller's in both cases.
\<close>

lemma written_path_extension:
  "GetExtension (ChangeExtension OutputPath ''.jpg'') False = ''jpg''
   \<or> ChangeExtension OutputPath ''.jpg'' = OutputPath \<and> GetExtension OutputPath False = []"
proof (cases OutputPath rule: ChangeExtension_jpg_cases)
  case Unchanged
  then show ?thesis by (simp add: no_extension_when_unchanged)
next
  case (Swapped k)
  define f where
    "f = drop (nat (FindLastCharByPredicate IsSlashOrBackslash OutputPath + 1)) (take k OutputPath)"
  from swapped_file_name(1) [OF Swapped(1-4)]
  have "GetCleanFilename (take k OutputPath @ ''.jpg'') = f @ CHR ''.'' # ''jpg''"
    unfolding f_def by simp
  then have "GetExtension (take k OutputPath @ ''.jpg'') False = ''jpg''"
    by (intro dotted_file_name(1) [where f = f]) simp_all
  with Swapped(5) show ?thesis by simp
qed

lemma written_path_base_name:
  "GetBaseFilename (ChangeExtension OutputPath ''.jpg'') = GetBaseFilename OutputPath"
proof (cases OutputPath rule: ChangeExtension_jpg_cases)
  case Unchanged
  then show ?thesis by simp
next
  case (Swapped k)
  define f where
    "f = drop (nat (FindLastCharByPredicate IsSlashOrBackslash OutputPath + 1)) (take k OutputPath)"
  note fn = swapped_file_name [OF Swapped(1-4), folded f_def]
  from fn(1) have "GetCleanFilename (take k OutputPath @ ''.jpg'') = f @ CHR ''.'' # ''jpg''"
    by simp
  then have "GetBaseFilename (take k OutputPath @ ''.jpg'') = f"
    by (intro dotted_file_name(2) [where e = "''jpg''"]) simp_all
  moreover from fn(3) fn(2) have "GetBaseFilename OutputPath = f"
    by (rule dotted_file_name(2))
  ultimately show ?thesis using Swapped(5) by simp
qed

lemma GetPath_ChangeExtension_jpg:
  "GetPath (ChangeExtension OutputPath ''.jpg'') = GetPath OutputPath"
proof (cases OutputPath rule: ChangeExtension_jpg_cases)
  case Unchanged
  then show ?thesis by simp
next
  case (Swapped k)
  define s where "s = FindLastCharByPredicate IsSlashOrBackslash OutputPath"
  note ls = last_slash_swapped [OF Swapped(1,2,4), folded s_def]
  from ls(2) Swapped(1) have "take (nat s) (take k OutputPath @ ''.jpg'') = take (nat s) OutputPath"
    by simp
  with ls(1) have "GetPath (take k OutputPath @ ''.jpg'') = GetPath OutputPath"
    by (simp add: GetPath_def Let_def Left_def s_def)
  with Swapped(5) show ?thesis by simp
qed

subsection \<open>Runs on the small engine\<close>

lemmas path_eval =
  ChangeExtension_def GetPath_def GetCleanFilename_def GetExtension_def GetBaseFilename_def
  FindLastChar_def FindLastCharByPredicate_def IsSlashOrBackslash_def IsNotSlashOrBackslash_def
  INDEX_NONE_def Left_def Mid_def

lemma ChangeExtension_rock_png: "ChangeExtension ''C:/Thumbs/rock.png'' ''.jpg'' = ''C:/Thumbs/rock.jpg''"
  by (simp add: path_eval)

lemma ChangeExtension_rock: "ChangeExtension ''C:/Thumbs/rock'' ''.jpg'' = ''C:/Thumbs/rock''"
  by (simp add: path_eval)

lemma ChangeExtension_dotted_directory:
  "ChangeExtension ''C:/Thumbs.v2/rock'' ''.jpg'' = ''C:/Thumbs.v2/rock''"
  by (simp add: path_eval)

lemma GetPath_rock_jpg: "GetPath ''C:/Thumbs/rock.jpg'' = ''C:/Thumbs''"
  by (simp add: path_eval)

lemma SmallThumbnail_data: "GetUncompressedImageData SmallThumbnail \<noteq> []"
  by (simp add: SmallThumbnail_def)

lemma SquareThumbnail_simps:
  "GetImageWidth SquareThumbnail = 256" "GetImageHeight SquareThumbnail = 256"
  "GetUncompressedImageData SquareThumbnail \<noteq> []"
  "length (GetUncompressedImageData SquareThumbnail) = 262144"
  by (simp_all add: SquareThumbnail_def)

text \<open>
  The known asset, any thumbnail with pixel data and any output path, on the empty
  disk: the routine reaches the write, and the write succeeds when the disk is writable.
\<close>

lemma run_example:
  assumes "GetUncompressedImageData Thumb \<noteq> []" "OutputPath \<noteq> []"
  shows "ExportThumbnailAsPNG (ExampleEngine Thumb Writable)
     ''/Game/Props/Rock.Rock'' OutputPath EmptyDisk =
   ([Ev_GetAsset ''/Game/Props/Rock.Rock'' (Some 7),
     Ev_RenderThumbnail 7 256 256 AlwaysFlush Thumb,
     Ev_CreateImageWrapper JPEG (Some 1),
     Ev_SetRaw 1 (GetUncompressedImageData Thumb) (int (length (GetUncompressedImageData Thumb)))
       (GetImageWidth Thumb) (GetImageHeight Thumb) BGRA 8 True,
     Ev_GetCompressed 1 95 [0xFF, 0xD8, 0xFF, 0xD9],
     Ev_DirectoryExists (GetPath (ChangeExtension OutputPath ''.jpg'')) False,
     Ev_MakeDirectory (GetPath (ChangeExtension OutputPath ''.jpg'')) True True,
     Ev_SaveArrayToFile [0xFF, 0xD8, 0xFF, 0xD9] (ChangeExtension OutputPath ''.jpg'') Writable,
     Ev_UE_LOG (if Writable then Log else Warning)
       ((if Writable then ''Exported thumbnail to: '' else ''Failed to save thumbnail to: '')
        @ ChangeExtension OutputPath ''.jpg'')],
    \<lparr> Directories = [GetPath (ChangeExtension OutputPath ''.jpg'')],
      Files = (if Writable then [(ChangeExtension OutputPath ''.jpg'', [0xFF, 0xD8, 0xFF, 0xD9])]
               else []) \<rparr>)"
  using assms
  by (simp add: Export_unfold ExampleEngine_def EmptyDisk_def)

lemma run_rock:
  assumes "GetUncompressedImageData Thumb \<noteq> []"
  shows "ExportThumbnailAsPNG (ExampleEngine Thumb Writable)
     ''/Game/Props/Rock.Rock'' ''C:/Thumbs/rock.png'' EmptyDisk =
   ([Ev_GetAsset ''/Game/Props/Rock.Rock'' (Some 7),
     Ev_RenderThumbnail 7 256 256 AlwaysFlush Thumb,
     Ev_CreateImageWrapper JPEG (Some 1),
     Ev_SetRaw 1 (GetUncompressedImageData Thumb) (int (length (GetUncompressedImageData Thumb)))
       (GetImageWidth Thumb) (GetImageHeight Thumb) BGRA 8 True,
     Ev_GetCompressed 1 95 [0xFF, 0xD8, 0xFF, 0xD9],
     Ev_DirectoryExists ''C:/Thumbs'' False,
     Ev_MakeDirectory ''C:/Thumbs'' True True,
     Ev_SaveArrayToFile [0xFF, 0xD8, 0xFF, 0xD9] ''C:/Thumbs/rock.jpg'' Writable,
     Ev_UE_LOG (if Writable then Log else Warning)
       (if Writable then ''Exported thumbnail to: C:/Thumbs/rock.jpg''
        else ''Failed to save thumbnail to: C:/Thumbs/rock.jpg'')],
    \<lparr> Directories = [''C:/Thumbs''],
      Files = (if Writable then [(''C:/Thumbs/rock.jpg'', [0xFF, 0xD8, 0xFF, 0xD9])] else []) \<rparr>)"
  using assms
  by (simp add: Export_unfold ExampleEngine_def EmptyDisk_def
        ChangeExtension_rock_png GetPath_rock_jpg)

text \<open>
  The same export on the engine with an encoder and folders, from the state that has
  seen nothing yet: the folder is missing, so it is made if the engine can make it, and
  the file is written if the folder is there and the engine can write.
\<close>

lemma run_editor:
  assumes "GetUncompressedImageData Thumb \<noteq> []"
  shows "ExportThumbnailAsPNG (EditorEngine Thumb CanMake CanWrite)
     ''/Game/Props/Rock.Rock'' ''C:/Thumbs/rock.png'' NewEditor =
   ([Ev_GetAsset ''/Game/Props/Rock.Rock'' (Some 7),
     Ev_RenderThumbnail 7 256 256 AlwaysFlush Thumb,
     Ev_CreateImageWrapper JPEG (Some 1),
     Ev_SetRaw 1 (GetUncompressedImageData Thumb) (int (length (GetUncompressedImageData Thumb)))
       (GetImageWidth Thumb) (GetImageHeight Thumb) BGRA 8 True,
     Ev_GetCompressed 1 95 ([0xFF, 0xD8, 95] @ GetUncompressedImageData Thumb),
     Ev_DirectoryExists ''C:/Thumbs'' False,
     Ev_MakeDirectory ''C:/Thumbs'' True CanMake,
     Ev_SaveArrayToFile ([0xFF, 0xD8, 95] @ GetUncompressedImageData Thumb) ''C:/Thumbs/rock.jpg''
       (CanMake \<and> CanWrite),
     Ev_UE_LOG (if CanMake \<and> CanWrite then Log else Warning)
       (if CanMake \<and> CanWrite then ''Exported thumbnail to: C:/Thumbs/rock.jpg''
        else ''Failed to save thumbnail to: C:/Thumbs/rock.jpg'')],
    \<lparr> Loaded = [''/Game/Props/Rock.Rock''], Rendered = [(7, 256, 256)],
      Held = Some (GetUncompressedImageData Thumb, GetImageWidth Thumb, GetImageHeight Thumb),
      Folders = (if CanMake then [''C:/Thumbs''] else []),
      Written = (if CanMake \<and> CanWrite
                 then [(''C:/Thumbs/rock.jpg'', [0xFF, 0xD8, 95] @ GetUncompressedImageData Thumb)]
                 else []) \<rparr>)"
  using assms
  by (simp add: Export_unfold EditorEngine_def NewEditor_def
        ChangeExtension_rock_png GetPath_rock_jpg)

text \<open>What that engine returns to each call of the export, step by step.\<close>

lemma editor_chain:
  "GetAsset (EditorEngine T m s) ''/Game/Props/Rock.Rock'' NewEditor = (Some 7, AfterLookup)"
  "RenderThumbnail (EditorEngine T m s) 7 256 256 AlwaysFlush AfterLookup = (T, AfterRender)"
  "CreateImageWrapper (EditorEngine T m s) JPEG AfterRender = (Some 1, AfterRender)"
  "SetRaw (EditorEngine T m s) 1 (GetUncompressedImageData T)
     (int (length (GetUncompressedImageData T))) (GetImageWidth T) (GetImageHeight T) BGRA 8
     AfterRender = (True, Holding T)"
  "GetCompressed (EditorEngine T m s) 1 95 (Holding T)
     = ([0xFF, 0xD8, 95] @ GetUncompressedImageData T, Holding T)"
  "\<not> DirectoryExists (EditorEngine T m s) d (Holding T)"
  by (simp_all add: EditorEngine_def NewEditor_def AfterLookup_def AfterRender_def Holding_def)

lemma editor_disk:
  "MakeDirectory (EditorEngine T True s) d True (Holding T) = (True, (Holding T)\<lparr>Folders := [d]\<rparr>)"
  "MakeDirectory (EditorEngine T False s) d True (Holding T) = (False, Holding T)"
  "SaveArrayToFile (EditorEngine T m True) b ''C:/Thumbs/rock.jpg''
     ((Holding T)\<lparr>Folders := [''C:/Thumbs'']\<rparr>)
     = (True, (Holding T)\<lparr>Folders := [''C:/Thumbs''], Written := [(''C:/Thumbs/rock.jpg'', b)]\<rparr>)"
  "SaveArrayToFile (EditorEngine T m False) b p u = (False, u)"
  "SaveArrayToFile (EditorEngine T m s) b ''C:/Thumbs/rock.jpg'' (Holding T) = (False, Holding T)"
  "DirectoryExists (EditorEngine T m s) d ((Holding T)\<lparr>Folders := [d]\<rparr>)"
  by (simp_all add: EditorEngine_def NewEditor_def AfterLookup_def AfterRender_def Holding_def
        GetPath_rock_jpg)

lemma rock_paths:
  "ChangeExtension ''C:/Thumbs/rock.png'' ''.jpg'' = ''C:/Thumbs/rock.jpg''"
  "GetPath (ChangeExtension ''C:/Thumbs/rock.png'' ''.jpg'') = ''C:/Thumbs''"
  "GetPath ''C:/Thumbs/rock.jpg'' = ''C:/Thumbs''"
  by (simp_all add: ChangeExtension_rock_png GetPath_rock_jpg)

lemma editor_saved:
  "SaveArrayToFile (EditorEngine T True True) b
     (ChangeExtension ''C:/Thumbs/rock.png'' ''.jpg'')
     (if DirectoryExists (EditorEngine T True True)
           (GetPath (ChangeExtension ''C:/Thumbs/rock.png'' ''.jpg'')) (Holding T)
      then Holding T
      else snd (MakeDirectory (EditorEngine T True True)
             (GetPath (ChangeExtension ''C:/Thumbs/rock.png'' ''.jpg'')) True (Holding T)))
   = (True, (Holding T)\<lparr>Folders := [''C:/Thumbs''],
                              Written := [(''C:/Thumbs/rock.jpg'', b)]\<rparr>)"
  by (simp add: editor_chain editor_disk rock_paths)

lemma rock_nonempty:
  "''/Game/Props/Rock.Rock'' \<noteq> []" "''C:/Thumbs/rock.png'' \<noteq> []"
  by simp_all

lemma editor_bytes: "[0xFF, 0xD8, 95] @ GetUncompressedImageData T \<noteq> ([] :: uint8 list)"
  by simp

subsection \<open>The file written\<close>

text \<open>
  C1: a successful export should leave a JPEG file whose extension is \<^verbatim>\<open>.jpg\<close>, whatever
  suffix the caller's output path has. The encoder is always created for JPEG, but the
  path comes from \<^verbatim>\<open>ChangeExtension\<close>, which returns a path with no extension as it is.
  Run on the known asset with the output path \<^verbatim>\<open>C:/Thumbs/rock\<close>, the routine succeeds
  and the one file on the disk is \<^verbatim>\<open>C:/Thumbs/rock\<close>, whose extension is empty, where
  \<^verbatim>\<open>C:/Thumbs/rock.jpg\<close> was due.
\<close>

theorem extensionless_output_written_without_jpg:
  "Ev_SaveArrayToFile [0xFF, 0xD8, 0xFF, 0xD9] ''C:/Thumbs/rock'' True
     \<in> set (fst (ExportThumbnailAsPNG (ExampleEngine SmallThumbnail True)
                   ''/Game/Props/Rock.Rock'' ''C:/Thumbs/rock'' EmptyDisk))
   \<and> Files (snd (ExportThumbnailAsPNG (ExampleEngine SmallThumbnail True)
                   ''/Game/Props/Rock.Rock'' ''C:/Thumbs/rock'' EmptyDisk))
       = [(''C:/Thumbs/rock'', [0xFF, 0xD8, 0xFF, 0xD9])]
   \<and> GetExtension ''C:/Thumbs/rock'' False = []
   \<and> GetExtension ''C:/Thumbs/rock.jpg'' False = ''jpg''"
proof -
  have "ExportThumbnailAsPNG (ExampleEngine SmallThumbnail True)
          ''/Game/Props/Rock.Rock'' ''C:/Thumbs/rock'' EmptyDisk =
        ([Ev_GetAsset ''/Game/Props/Rock.Rock'' (Some 7),
          Ev_RenderThumbnail 7 256 256 AlwaysFlush SmallThumbnail,
          Ev_CreateImageWrapper JPEG (Some 1),
          Ev_SetRaw 1 (GetUncompressedImageData SmallThumbnail)
            (int (length (GetUncompressedImageData SmallThumbnail)))
            (GetImageWidth SmallThumbnail) (GetImageHeight SmallThumbnail) BGRA 8 True,
          Ev_GetCompressed 1 95 [0xFF, 0xD8, 0xFF, 0xD9],
          Ev_DirectoryExists (GetPath ''C:/Thumbs/rock'') False,
          Ev_MakeDirectory (GetPath ''C:/Thumbs/rock'') True True,
          Ev_SaveArrayToFile [0xFF, 0xD8, 0xFF, 0xD9] ''C:/Thumbs/rock'' True,
          Ev_UE_LOG Log (''Exported thumbnail to: '' @ ''C:/Thumbs/rock'')],
         \<lparr> Directories = [GetPath ''C:/Thumbs/rock''],
           Files = [(''C:/Thumbs/rock'', [0xFF, 0xD8, 0xFF, 0xD9])] \<rparr>)"
    using run_example [OF SmallThumbnail_data, of "''C:/Thumbs/rock''" True]
    by (simp add: ChangeExtension_rock)
  moreover have "GetExtension ''C:/Thumbs/rock'' False = []"
    by (simp add: path_eval)
  moreover have "GetExtension ''C:/Thumbs/rock.jpg'' False = ''jpg''"
    by (simp add: path_eval)
  ultimately show ?thesis by simp
qed

subsection \<open>Thumbnail size\<close>

text \<open>
  C2, as the code has it: in every successful export \<^verbatim>\<open>RenderThumbnail\<close> is called once,
  at 256 by 256 with \<^verbatim>\<open>AlwaysFlush\<close>, and \<^verbatim>\<open>SetRaw\<close> is called once, with the pixel data,
  the width and the height that the rendered thumbnail itself reports, not with the
  256 of the request; the bytes written are the ones \<^verbatim>\<open>GetCompressed\<close> then returns. The
  image handed to the encoder is therefore 256 by 256 whenever the rendered thumbnail
  reports 256 by 256.

  The hypotheses name what the engine returns to each call of a successful export, each
  call made in the state the call before it left. The conclusion is the whole call
  record and the final state: the record has exactly one \<^verbatim>\<open>RenderThumbnail\<close> entry and
  exactly one \<^verbatim>\<open>SetRaw\<close> entry, and the state is the one the write left.
\<close>

theorem thumbnail_requested_at_256:
  fixes E :: "('w, 'obj, 'iw) Engine" and OutputPath :: string and w5 :: 'w
  defines "P \<equiv> ChangeExtension OutputPath ''.jpg''"
  defines "D \<equiv> GetPath (ChangeExtension OutputPath ''.jpg'')"
  defines "w7 \<equiv> if DirectoryExists E (GetPath (ChangeExtension OutputPath ''.jpg'')) w5 then w5
               else snd (MakeDirectory E (GetPath (ChangeExtension OutputPath ''.jpg'')) True w5)"
  assumes nonempty: "ObjectPath \<noteq> []" "OutputPath \<noteq> []"
      and asset: "GetAsset E ObjectPath w = (Some Obj, w1)"
      and render: "RenderThumbnail E Obj 256 256 AlwaysFlush w1 = (Thumb, w2)"
      and data: "GetUncompressedImageData Thumb \<noteq> []"
      and wrapper: "CreateImageWrapper E JPEG w2 = (Some IW, w3)"
      and raw: "SetRaw E IW (GetUncompressedImageData Thumb)
                  (int (length (GetUncompressedImageData Thumb)))
                  (GetImageWidth Thumb) (GetImageHeight Thumb) BGRA 8 w3 = (RawOk, w4)"
      and compressed: "GetCompressed E IW 95 w4 = (B, w5)"
      and bytes: "B \<noteq> []"
      and saved: "SaveArrayToFile E B P w7 = (True, w8)"
  shows "ExportThumbnailAsPNG E ObjectPath OutputPath w =
              ([Ev_GetAsset ObjectPath (Some Obj),
                Ev_RenderThumbnail Obj 256 256 AlwaysFlush Thumb,
                Ev_CreateImageWrapper JPEG (Some IW),
                Ev_SetRaw IW (GetUncompressedImageData Thumb)
                  (int (length (GetUncompressedImageData Thumb)))
                  (GetImageWidth Thumb) (GetImageHeight Thumb) BGRA 8 RawOk,
                Ev_GetCompressed IW 95 B,
                Ev_DirectoryExists D (DirectoryExists E D w5)]
               @ (if DirectoryExists E D w5 then []
                  else [Ev_MakeDirectory D True (fst (MakeDirectory E D True w5))])
               @ [Ev_SaveArrayToFile B P True,
                  Ev_UE_LOG Log (''Exported thumbnail to: '' @ P)],
               w8)
       \<and> (GetImageWidth Thumb = 256 \<and> GetImageHeight Thumb = 256 \<longrightarrow>
            Ev_SetRaw IW (GetUncompressedImageData Thumb)
              (int (length (GetUncompressedImageData Thumb))) 256 256 BGRA 8 RawOk
            \<in> set (fst (ExportThumbnailAsPNG E ObjectPath OutputPath w)))"
    (is "?run \<and> ?square")
proof -
  from assms have run: ?run
    unfolding P_def D_def w7_def
    by (cases "DirectoryExists E (GetPath (ChangeExtension OutputPath ''.jpg'')) w5")
       (simp_all add: Export_unfold case_prod_beta)
  have ?square unfolding run by simp
  with run show ?thesis by blast
qed

theorem thumbnail_requested_at_256_witness:
  "Ev_RenderThumbnail 7 256 256 AlwaysFlush SquareThumbnail
     \<in> set (fst (ExportThumbnailAsPNG (EditorEngine SquareThumbnail True True)
       ''/Game/Props/Rock.Rock'' ''C:/Thumbs/rock.png'' NewEditor))
   \<and> Ev_SetRaw 1 (GetUncompressedImageData SquareThumbnail) 262144 256 256 BGRA 8 True
     \<in> set (fst (ExportThumbnailAsPNG (EditorEngine SquareThumbnail True True)
       ''/Game/Props/Rock.Rock'' ''C:/Thumbs/rock.png'' NewEditor))
   \<and> snd (ExportThumbnailAsPNG (EditorEngine SquareThumbnail True True)
       ''/Game/Props/Rock.Rock'' ''C:/Thumbs/rock.png'' NewEditor)
     = (Holding SquareThumbnail)
         \<lparr>Folders := [''C:/Thumbs''],
          Written := [(''C:/Thumbs/rock.jpg'',
                       [0xFF, 0xD8, 95] @ GetUncompressedImageData SquareThumbnail)]\<rparr>
   \<and> Held (Holding SquareThumbnail)
     = Some (GetUncompressedImageData SquareThumbnail, 256, 256)"
proof -
  note T = thumbnail_requested_at_256
      [of "''/Game/Props/Rock.Rock''" "''C:/Thumbs/rock.png''"
          "EditorEngine SquareThumbnail True True",
       OF rock_nonempty editor_chain(1) editor_chain(2) SquareThumbnail_simps(3)
          editor_chain(3) editor_chain(4) editor_chain(5) editor_bytes editor_saved]
  note run = T [THEN conjunct1]
  show ?thesis
    unfolding run
    by (simp add: SquareThumbnail_simps Holding_def)
qed

text \<open>
  As first stated, C2 promised 256 by 256 for every successful export. An engine whose
  renderer fills in a thumbnail two pixels wide and one high (the size of the texture it
  drew) makes the export succeed with an image of that size.
\<close>

theorem small_texture_exported_at_its_own_size_counterexample:
  "Ev_SaveArrayToFile [0xFF, 0xD8, 0xFF, 0xD9] ''C:/Thumbs/rock.jpg'' True
     \<in> set (fst (ExportThumbnailAsPNG (ExampleEngine SmallThumbnail True)
                   ''/Game/Props/Rock.Rock'' ''C:/Thumbs/rock.png'' EmptyDisk))
   \<and> Ev_SetRaw 1 [0, 0, 255, 255, 0, 255, 0, 255] 8 2 1 BGRA 8 True
     \<in> set (fst (ExportThumbnailAsPNG (ExampleEngine SmallThumbnail True)
                   ''/Game/Props/Rock.Rock'' ''C:/Thumbs/rock.png'' EmptyDisk))
   \<and> (2 :: int32) \<noteq> 256 \<and> (1 :: int32) \<noteq> 256"
  by (simp add: run_rock SmallThumbnail_def)

subsection \<open>Empty input\<close>

text \<open>
  C3: when the asset path or the output path is empty, the routine logs one warning and
  returns: the call record holds that log line alone (no asset lookup, no render, no
  compression, no file-system call) and the engine state is the one it was given, so no
  file is produced.
\<close>

theorem empty_input_only_logs:
  "ObjectPath = [] \<or> OutputPath = [] \<Longrightarrow>
   ExportThumbnailAsPNG E ObjectPath OutputPath w =
     ([Ev_UE_LOG Warning ''Invalid input parameters!''], w)"
  by (simp add: ExportThumbnailAsPNG_def)

theorem empty_input_only_logs_witness:
  "ExportThumbnailAsPNG (ExampleEngine SmallThumbnail True) [] ''C:/Thumbs/rock.png'' EmptyDisk =
     ([Ev_UE_LOG Warning ''Invalid input parameters!''], EmptyDisk)
   \<and> ExportThumbnailAsPNG (ExampleEngine SmallThumbnail True) ''/Game/Props/Rock.Rock'' [] EmptyDisk =
     ([Ev_UE_LOG Warning ''Invalid input parameters!''], EmptyDisk)"
  using empty_input_only_logs [of "[]" "''C:/Thumbs/rock.png''" "ExampleEngine SmallThumbnail True" EmptyDisk]
        empty_input_only_logs [of "''/Game/Props/Rock.Rock''" "[]" "ExampleEngine SmallThumbnail True" EmptyDisk]
  by simp

subsection \<open>Failure paths\<close>

text \<open>
  C4, as the code has it: every failure mode (empty input, asset not found, empty
  thumbnail data, encoder creation failure, compression failure, file write failure)
  ends the same way: the routine logs exactly one line, a warning, as its last action
  and returns \<^verbatim>\<open>void\<close>, so nothing reaches the caller. What else has happened by then
  depends on the failure:

  \<^item> empty input: nothing; the call record is the warning alone and the state is the one
    the routine was given;
  \<^item> asset not found, empty thumbnail data, encoder creation failure, compression
    failure: only the engine calls up to the failing step (lookup, render, wrapper
    creation, \<^verbatim>\<open>SetRaw\<close>, \<^verbatim>\<open>GetCompressed\<close>) have been made, and the state is the one the
    last of them left; no file-system call (\<^verbatim>\<open>DirectoryExists\<close>, \<^verbatim>\<open>MakeDirectory\<close>,
    \<^verbatim>\<open>SaveArrayToFile\<close>) is in the record;
  \<^item> file write failure: the directory check, \<^verbatim>\<open>MakeDirectory\<close> when the directory was
    missing, and the failed write have been made, and the state is the one the failed
    write left: nothing is undone.

  Each path is given by what the engine returns to the calls on it; the conclusion is
  the whole call record and the final state of that path.
\<close>

theorem failure_logs_one_warning_last:
  fixes E :: "('w, 'obj, 'iw) Engine" and OutputPath :: string and w5 :: 'w
  defines "P \<equiv> ChangeExtension OutputPath ''.jpg''"
  defines "D \<equiv> GetPath (ChangeExtension OutputPath ''.jpg'')"
  shows
   "(ObjectPath = [] \<or> OutputPath = [] \<longrightarrow>
       ExportThumbnailAsPNG E ObjectPath OutputPath w =
         ([Ev_UE_LOG Warning ''Invalid input parameters!''], w))
    \<and> (ObjectPath \<noteq> [] \<and> OutputPath \<noteq> [] \<longrightarrow>
         (GetAsset E ObjectPath w = (None, w1) \<longrightarrow>
            ExportThumbnailAsPNG E ObjectPath OutputPath w =
              ([Ev_GetAsset ObjectPath None,
                Ev_UE_LOG Warning (''Asset not found at path: '' @ ObjectPath)], w1))
       \<and> (GetAsset E ObjectPath w = (Some Obj, w1)
            \<and> RenderThumbnail E Obj 256 256 AlwaysFlush w1 = (Thumb, w2) \<longrightarrow>
            (GetUncompressedImageData Thumb = [] \<longrightarrow>
               ExportThumbnailAsPNG E ObjectPath OutputPath w =
                 ([Ev_GetAsset ObjectPath (Some Obj),
                   Ev_RenderThumbnail Obj 256 256 AlwaysFlush Thumb,
                   Ev_UE_LOG Warning (''No thumbnail data for asset: '' @ ObjectPath)], w2))
          \<and> (GetUncompressedImageData Thumb \<noteq> [] \<longrightarrow>
               (CreateImageWrapper E JPEG w2 = (None, w3) \<longrightarrow>
                  ExportThumbnailAsPNG E ObjectPath OutputPath w =
                    ([Ev_GetAsset ObjectPath (Some Obj),
                      Ev_RenderThumbnail Obj 256 256 AlwaysFlush Thumb,
                      Ev_CreateImageWrapper JPEG None,
                      Ev_UE_LOG Warning ''Failed to create ImageWrapper!''], w3))
             \<and> (CreateImageWrapper E JPEG w2 = (Some IW, w3)
                  \<and> SetRaw E IW (GetUncompressedImageData Thumb)
                       (int (length (GetUncompressedImageData Thumb)))
                       (GetImageWidth Thumb) (GetImageHeight Thumb) BGRA 8 w3 = (RawOk, w4)
                  \<and> GetCompressed E IW 95 w4 = (B, w5) \<longrightarrow>
                  (B = [] \<longrightarrow>
                     ExportThumbnailAsPNG E ObjectPath OutputPath w =
                       ([Ev_GetAsset ObjectPath (Some Obj),
                         Ev_RenderThumbnail Obj 256 256 AlwaysFlush Thumb,
                         Ev_CreateImageWrapper JPEG (Some IW),
                         Ev_SetRaw IW (GetUncompressedImageData Thumb)
                           (int (length (GetUncompressedImageData Thumb)))
                           (GetImageWidth Thumb) (GetImageHeight Thumb) BGRA 8 RawOk,
                         Ev_GetCompressed IW 95 [],
                         Ev_UE_LOG Warning ''Failed to compress image data!''], w5))
                \<and> (B \<noteq> []
                     \<and> SaveArrayToFile E B P
                          (if DirectoryExists E D w5 then w5
                           else snd (MakeDirectory E D True w5)) = (False, w8) \<longrightarrow>
                     ExportThumbnailAsPNG E ObjectPath OutputPath w =
                       ([Ev_GetAsset ObjectPath (Some Obj),
                         Ev_RenderThumbnail Obj 256 256 AlwaysFlush Thumb,
                         Ev_CreateImageWrapper JPEG (Some IW),
                         Ev_SetRaw IW (GetUncompressedImageData Thumb)
                           (int (length (GetUncompressedImageData Thumb)))
                           (GetImageWidth Thumb) (GetImageHeight Thumb) BGRA 8 RawOk,
                         Ev_GetCompressed IW 95 B,
                         Ev_DirectoryExists D (DirectoryExists E D w5)]
                        @ (if DirectoryExists E D w5 then []
                           else [Ev_MakeDirectory D True (fst (MakeDirectory E D True w5))])
                        @ [Ev_SaveArrayToFile B P False,
                           Ev_UE_LOG Warning (''Failed to save thumbnail to: '' @ P)],
                        w8))))))"
proof -
  have invalid: "ExportThumbnailAsPNG E ObjectPath OutputPath w =
         ([Ev_UE_LOG Warning ''Invalid input parameters!''], w)"
    if "ObjectPath = [] \<or> OutputPath = []"
    using that by (simp add: ExportThumbnailAsPNG_def)
  have not_found: "ExportThumbnailAsPNG E ObjectPath OutputPath w =
              ([Ev_GetAsset ObjectPath None,
                Ev_UE_LOG Warning (''Asset not found at path: '' @ ObjectPath)], w1)"
    if "ObjectPath \<noteq> []" "OutputPath \<noteq> []" "GetAsset E ObjectPath w = (None, w1)"
    using that by (simp add: Export_unfold)
  have no_data: "ExportThumbnailAsPNG E ObjectPath OutputPath w =
                 ([Ev_GetAsset ObjectPath (Some Obj),
                   Ev_RenderThumbnail Obj 256 256 AlwaysFlush Thumb,
                   Ev_UE_LOG Warning (''No thumbnail data for asset: '' @ ObjectPath)], w2)"
    if "ObjectPath \<noteq> []" "OutputPath \<noteq> []" "GetAsset E ObjectPath w = (Some Obj, w1)"
      "RenderThumbnail E Obj 256 256 AlwaysFlush w1 = (Thumb, w2)"
      "GetUncompressedImageData Thumb = []"
    using that by (simp add: Export_unfold)
  have no_wrapper: "ExportThumbnailAsPNG E ObjectPath OutputPath w =
                    ([Ev_GetAsset ObjectPath (Some Obj),
                      Ev_RenderThumbnail Obj 256 256 AlwaysFlush Thumb,
                      Ev_CreateImageWrapper JPEG None,
                      Ev_UE_LOG Warning ''Failed to create ImageWrapper!''], w3)"
    if "ObjectPath \<noteq> []" "OutputPath \<noteq> []" "GetAsset E ObjectPath w = (Some Obj, w1)"
      "RenderThumbnail E Obj 256 256 AlwaysFlush w1 = (Thumb, w2)"
      "GetUncompressedImageData Thumb \<noteq> []"
      "CreateImageWrapper E JPEG w2 = (None, w3)"
    using that by (simp add: Export_unfold)
  have no_bytes: "ExportThumbnailAsPNG E ObjectPath OutputPath w =
                       ([Ev_GetAsset ObjectPath (Some Obj),
                         Ev_RenderThumbnail Obj 256 256 AlwaysFlush Thumb,
                         Ev_CreateImageWrapper JPEG (Some IW),
                         Ev_SetRaw IW (GetUncompressedImageData Thumb)
                           (int (length (GetUncompressedImageData Thumb)))
                           (GetImageWidth Thumb) (GetImageHeight Thumb) BGRA 8 RawOk,
                         Ev_GetCompressed IW 95 [],
                         Ev_UE_LOG Warning ''Failed to compress image data!''], w5)"
    if "ObjectPath \<noteq> []" "OutputPath \<noteq> []" "GetAsset E ObjectPath w = (Some Obj, w1)"
      "RenderThumbnail E Obj 256 256 AlwaysFlush w1 = (Thumb, w2)"
      "GetUncompressedImageData Thumb \<noteq> []"
      "CreateImageWrapper E JPEG w2 = (Some IW, w3)"
      "SetRaw E IW (GetUncompressedImageData Thumb)
                       (int (length (GetUncompressedImageData Thumb)))
                       (GetImageWidth Thumb) (GetImageHeight Thumb) BGRA 8 w3 = (RawOk, w4)"
      "GetCompressed E IW 95 w4 = (B, w5)" "B = []"
    using that by (simp add: Export_unfold)
  have not_saved: "ExportThumbnailAsPNG E ObjectPath OutputPath w =
                       ([Ev_GetAsset ObjectPath (Some Obj),
                         Ev_RenderThumbnail Obj 256 256 AlwaysFlush Thumb,
                         Ev_CreateImageWrapper JPEG (Some IW),
                         Ev_SetRaw IW (GetUncompressedImageData Thumb)
                           (int (length (GetUncompressedImageData Thumb)))
                           (GetImageWidth Thumb) (GetImageHeight Thumb) BGRA 8 RawOk,
                         Ev_GetCompressed IW 95 B,
                         Ev_DirectoryExists D (DirectoryExists E D w5)]
                        @ (if DirectoryExists E D w5 then []
                           else [Ev_MakeDirectory D True (fst (MakeDirectory E D True w5))])
                        @ [Ev_SaveArrayToFile B P False,
                           Ev_UE_LOG Warning (''Failed to save thumbnail to: '' @ P)],
                        w8)"
    if "ObjectPath \<noteq> []" "OutputPath \<noteq> []" "GetAsset E ObjectPath w = (Some Obj, w1)"
      "RenderThumbnail E Obj 256 256 AlwaysFlush w1 = (Thumb, w2)"
      "GetUncompressedImageData Thumb \<noteq> []"
      "CreateImageWrapper E JPEG w2 = (Some IW, w3)"
      "SetRaw E IW (GetUncompressedImageData Thumb)
                       (int (length (GetUncompressedImageData Thumb)))
                       (GetImageWidth Thumb) (GetImageHeight Thumb) BGRA 8 w3 = (RawOk, w4)"
      "GetCompressed E IW 95 w4 = (B, w5)" "B \<noteq> []"
      "SaveArrayToFile E B P
                          (if DirectoryExists E D w5 then w5
                           else snd (MakeDirectory E D True w5)) = (False, w8)"
    using that unfolding P_def D_def
    by (cases "DirectoryExists E (GetPath (ChangeExtension OutputPath ''.jpg'')) w5")
       (simp_all add: Export_unfold case_prod_beta)
  from invalid not_found no_data no_wrapper no_bytes not_saved show ?thesis
    by blast
qed

theorem failure_logs_one_warning_last_witness:
  "ExportThumbnailAsPNG (EditorEngine SmallThumbnail True False)
       [] ''C:/Thumbs/rock.png'' NewEditor =
     ([Ev_UE_LOG Warning ''Invalid input parameters!''], NewEditor)
   \<and> ExportThumbnailAsPNG (EditorEngine SmallThumbnail True False)
       ''/Game/Props/Gone.Gone'' ''C:/Thumbs/rock.png'' NewEditor =
     ([Ev_GetAsset ''/Game/Props/Gone.Gone'' None,
       Ev_UE_LOG Warning ''Asset not found at path: /Game/Props/Gone.Gone''],
      NewEditor\<lparr>Loaded := [''/Game/Props/Gone.Gone'']\<rparr>)
   \<and> ExportThumbnailAsPNG (EditorEngine SmallThumbnail True False)
       ''/Game/Props/Rock.Rock'' ''C:/Thumbs/rock.png'' NewEditor =
     ([Ev_GetAsset ''/Game/Props/Rock.Rock'' (Some 7),
       Ev_RenderThumbnail 7 256 256 AlwaysFlush SmallThumbnail,
       Ev_CreateImageWrapper JPEG (Some 1),
       Ev_SetRaw 1 [0, 0, 255, 255, 0, 255, 0, 255] 8 2 1 BGRA 8 True,
       Ev_GetCompressed 1 95 [0xFF, 0xD8, 95, 0, 0, 255, 255, 0, 255, 0, 255],
       Ev_DirectoryExists ''C:/Thumbs'' False,
       Ev_MakeDirectory ''C:/Thumbs'' True True,
       Ev_SaveArrayToFile [0xFF, 0xD8, 95, 0, 0, 255, 255, 0, 255, 0, 255]
         ''C:/Thumbs/rock.jpg'' False,
       Ev_UE_LOG Warning ''Failed to save thumbnail to: C:/Thumbs/rock.jpg''],
      (Holding SmallThumbnail)\<lparr>Folders := [''C:/Thumbs'']\<rparr>)"
proof -
  let ?E = "EditorEngine SmallThumbnail True False"
  have gone: "GetAsset ?E ''/Game/Props/Gone.Gone'' NewEditor
                = (None, NewEditor\<lparr>Loaded := [''/Game/Props/Gone.Gone'']\<rparr>)"
    by (simp add: EditorEngine_def NewEditor_def)
  have failed: "SaveArrayToFile ?E ([0xFF, 0xD8, 95] @ GetUncompressedImageData SmallThumbnail)
        (ChangeExtension ''C:/Thumbs/rock.png'' ''.jpg'')
        (if DirectoryExists (?E)
              (GetPath (ChangeExtension ''C:/Thumbs/rock.png'' ''.jpg'')) (Holding SmallThumbnail)
          then Holding SmallThumbnail
          else snd (MakeDirectory (?E)
                 (GetPath (ChangeExtension ''C:/Thumbs/rock.png'' ''.jpg'')) True (Holding SmallThumbnail)))
      = (False, (Holding SmallThumbnail)\<lparr>Folders := [''C:/Thumbs'']\<rparr>)"
    by (simp add: editor_chain editor_disk rock_paths)
  have 1: "ExportThumbnailAsPNG ?E [] ''C:/Thumbs/rock.png'' NewEditor =
             ([Ev_UE_LOG Warning ''Invalid input parameters!''], NewEditor)"
    using failure_logs_one_warning_last
      [where ObjectPath = "[]" and OutputPath = "''C:/Thumbs/rock.png''" and E = ?E
         and w = NewEditor]
    by simp
  have 2: "ExportThumbnailAsPNG ?E ''/Game/Props/Gone.Gone'' ''C:/Thumbs/rock.png'' NewEditor =
     ([Ev_GetAsset ''/Game/Props/Gone.Gone'' None,
       Ev_UE_LOG Warning ''Asset not found at path: /Game/Props/Gone.Gone''],
      NewEditor\<lparr>Loaded := [''/Game/Props/Gone.Gone'']\<rparr>)"
    using failure_logs_one_warning_last
      [where ObjectPath = "''/Game/Props/Gone.Gone''" and OutputPath = "''C:/Thumbs/rock.png''"
         and E = ?E and w = NewEditor
         and ?w1.0 = "NewEditor\<lparr>Loaded := [''/Game/Props/Gone.Gone'']\<rparr>"]
      gone
    by simp
  have 3: "ExportThumbnailAsPNG (?E)
       ''/Game/Props/Rock.Rock'' ''C:/Thumbs/rock.png'' NewEditor =
     ([Ev_GetAsset ''/Game/Props/Rock.Rock'' (Some 7),
       Ev_RenderThumbnail 7 256 256 AlwaysFlush SmallThumbnail,
       Ev_CreateImageWrapper JPEG (Some 1),
       Ev_SetRaw 1 [0, 0, 255, 255, 0, 255, 0, 255] 8 2 1 BGRA 8 True,
       Ev_GetCompressed 1 95 [0xFF, 0xD8, 95, 0, 0, 255, 255, 0, 255, 0, 255],
       Ev_DirectoryExists ''C:/Thumbs'' False,
       Ev_MakeDirectory ''C:/Thumbs'' True True,
       Ev_SaveArrayToFile [0xFF, 0xD8, 95, 0, 0, 255, 255, 0, 255, 0, 255]
         ''C:/Thumbs/rock.jpg'' False,
       Ev_UE_LOG Warning ''Failed to save thumbnail to: C:/Thumbs/rock.jpg''],
      (Holding SmallThumbnail)\<lparr>Folders := [''C:/Thumbs'']\<rparr>)"
    using failure_logs_one_warning_last
      [where ObjectPath = "''/Game/Props/Rock.Rock''" and OutputPath = "''C:/Thumbs/rock.png''"
         and E = ?E and w = NewEditor and ?w1.0 = AfterLookup and Obj = 7
         and Thumb = SmallThumbnail and ?w2.0 = AfterRender and ?w3.0 = AfterRender
         and IW = 1 and RawOk = True and ?w4.0 = "Holding SmallThumbnail"
         and B = "[0xFF, 0xD8, 95] @ GetUncompressedImageData SmallThumbnail"
         and ?w5.0 = "Holding SmallThumbnail"
         and ?w8.0 = "(Holding SmallThumbnail)\<lparr>Folders := [''C:/Thumbs'']\<rparr>"]
      failed
    by (simp add: EditorEngine_def NewEditor_def AfterLookup_def AfterRender_def Holding_def
          SmallThumbnail_def rock_paths)
  from 1 2 3 show ?thesis by simp
qed

text \<open>
  As first stated, C4 also made every failure path a no-op. On a disk with no
  directories and a write that fails, the routine has created the output directory by
  the time it logs the failure: the disk it leaves is not the disk it was given.
\<close>

theorem write_failure_changes_disk_counterexample:
  "Ev_SaveArrayToFile [0xFF, 0xD8, 0xFF, 0xD9] ''C:/Thumbs/rock.jpg'' False
     \<in> set (fst (ExportThumbnailAsPNG (ExampleEngine SmallThumbnail False)
                   ''/Game/Props/Rock.Rock'' ''C:/Thumbs/rock.png'' EmptyDisk))
   \<and> Directories EmptyDisk = []
   \<and> Directories (snd (ExportThumbnailAsPNG (ExampleEngine SmallThumbnail False)
                   ''/Game/Props/Rock.Rock'' ''C:/Thumbs/rock.png'' EmptyDisk)) = [''C:/Thumbs'']
   \<and> snd (ExportThumbnailAsPNG (ExampleEngine SmallThumbnail False)
                   ''/Game/Props/Rock.Rock'' ''C:/Thumbs/rock.png'' EmptyDisk) \<noteq> EmptyDisk"
  unfolding run_rock [OF SmallThumbnail_data] by (simp add: EmptyDisk_def)

subsection \<open>Compression quality\<close>

text \<open>
  C5: every run that reaches the compression step applies the encoder's
  \<^verbatim>\<open>GetCompressed\<close> once, to the wrapper \<^verbatim>\<open>SetRaw\<close> was called on, in the state \<^verbatim>\<open>SetRaw\<close>
  left, with the quality 95. The bytes \<open>B\<close> which that application returns decide the
  rest: when they are empty the routine logs a warning and stops in the state the
  application left; otherwise they are the bytes handed to \<^verbatim>\<open>SaveArrayToFile\<close>. The
  record holds no other \<^verbatim>\<open>GetCompressed\<close> entry. The quality is a constant of the
  routine: the asset path, the output path and the answers of the engine are arbitrary
  here and none of them changes it.
\<close>

theorem compression_quality_95:
  fixes E :: "('w, 'obj, 'iw) Engine" and OutputPath :: string and w5 :: 'w
  defines "P \<equiv> ChangeExtension OutputPath ''.jpg''"
  defines "D \<equiv> GetPath (ChangeExtension OutputPath ''.jpg'')"
  defines "w7 \<equiv> if DirectoryExists E (GetPath (ChangeExtension OutputPath ''.jpg'')) w5 then w5
               else snd (MakeDirectory E (GetPath (ChangeExtension OutputPath ''.jpg'')) True w5)"
  assumes nonempty: "ObjectPath \<noteq> []" "OutputPath \<noteq> []"
      and asset: "GetAsset E ObjectPath w = (Some Obj, w1)"
      and render: "RenderThumbnail E Obj 256 256 AlwaysFlush w1 = (Thumb, w2)"
      and data: "GetUncompressedImageData Thumb \<noteq> []"
      and wrapper: "CreateImageWrapper E JPEG w2 = (Some IW, w3)"
      and raw: "SetRaw E IW (GetUncompressedImageData Thumb)
                  (int (length (GetUncompressedImageData Thumb)))
                  (GetImageWidth Thumb) (GetImageHeight Thumb) BGRA 8 w3 = (RawOk, w4)"
      and compressed: "GetCompressed E IW 95 w4 = (B, w5)"
  shows "(B = [] \<longrightarrow>
            ExportThumbnailAsPNG E ObjectPath OutputPath w =
              ([Ev_GetAsset ObjectPath (Some Obj),
                Ev_RenderThumbnail Obj 256 256 AlwaysFlush Thumb,
                Ev_CreateImageWrapper JPEG (Some IW),
                Ev_SetRaw IW (GetUncompressedImageData Thumb)
                  (int (length (GetUncompressedImageData Thumb)))
                  (GetImageWidth Thumb) (GetImageHeight Thumb) BGRA 8 RawOk,
                Ev_GetCompressed IW 95 [],
                Ev_UE_LOG Warning ''Failed to compress image data!''], w5))
       \<and> (B \<noteq> [] \<longrightarrow>
            ExportThumbnailAsPNG E ObjectPath OutputPath w =
              ([Ev_GetAsset ObjectPath (Some Obj),
                Ev_RenderThumbnail Obj 256 256 AlwaysFlush Thumb,
                Ev_CreateImageWrapper JPEG (Some IW),
                Ev_SetRaw IW (GetUncompressedImageData Thumb)
                  (int (length (GetUncompressedImageData Thumb)))
                  (GetImageWidth Thumb) (GetImageHeight Thumb) BGRA 8 RawOk,
                Ev_GetCompressed IW 95 B,
                Ev_DirectoryExists D (DirectoryExists E D w5)]
               @ (if DirectoryExists E D w5 then []
                  else [Ev_MakeDirectory D True (fst (MakeDirectory E D True w5))])
               @ [Ev_SaveArrayToFile B P (fst (SaveArrayToFile E B P w7)),
                  Ev_UE_LOG (if fst (SaveArrayToFile E B P w7) then Log else Warning)
                    ((if fst (SaveArrayToFile E B P w7) then ''Exported thumbnail to: ''
                      else ''Failed to save thumbnail to: '') @ P)],
               snd (SaveArrayToFile E B P w7)))
       \<and> (\<forall>IW' Quality B'. Ev_GetCompressed IW' Quality B'
              \<in> set (fst (ExportThumbnailAsPNG E ObjectPath OutputPath w)) \<longrightarrow>
            IW' = IW \<and> Quality = 95 \<and> B' = B)"
    (is "(_ \<longrightarrow> ?empty) \<and> (_ \<longrightarrow> ?written) \<and> ?only")
proof -
  have 1: ?empty if "B = []"
    using that assms by (simp add: Export_unfold)
  have 2: ?written if "B \<noteq> []"
    using that assms
    unfolding P_def D_def w7_def
    by (cases "DirectoryExists E (GetPath (ChangeExtension OutputPath ''.jpg'')) w5")
       (simp_all add: Export_unfold case_prod_beta)
  have 3: ?only
  proof (cases "B = []")
    case True
    then show ?thesis unfolding 1 [OF True] by simp
  next
    case False
    then show ?thesis unfolding 2 [OF False] by simp
  qed
  from 1 2 3 show ?thesis by blast
qed

theorem compression_quality_95_witness:
  "GetCompressed (EditorEngine SmallThumbnail True True) 1 95 (Holding SmallThumbnail)
     = ([0xFF, 0xD8, 95] @ GetUncompressedImageData SmallThumbnail, Holding SmallThumbnail)
   \<and> ExportThumbnailAsPNG (EditorEngine SmallThumbnail True True)
       ''/Game/Props/Rock.Rock'' ''C:/Thumbs/rock.png'' NewEditor =
     ([Ev_GetAsset ''/Game/Props/Rock.Rock'' (Some 7),
       Ev_RenderThumbnail 7 256 256 AlwaysFlush SmallThumbnail,
       Ev_CreateImageWrapper JPEG (Some 1),
       Ev_SetRaw 1 [0, 0, 255, 255, 0, 255, 0, 255] 8 2 1 BGRA 8 True,
       Ev_GetCompressed 1 95 [0xFF, 0xD8, 95, 0, 0, 255, 255, 0, 255, 0, 255],
       Ev_DirectoryExists ''C:/Thumbs'' False,
       Ev_MakeDirectory ''C:/Thumbs'' True True,
       Ev_SaveArrayToFile [0xFF, 0xD8, 95, 0, 0, 255, 255, 0, 255, 0, 255]
         ''C:/Thumbs/rock.jpg'' True,
       Ev_UE_LOG Log ''Exported thumbnail to: C:/Thumbs/rock.jpg''],
      (Holding SmallThumbnail)
        \<lparr>Folders := [''C:/Thumbs''],
         Written := [(''C:/Thumbs/rock.jpg'', [0xFF, 0xD8, 95, 0, 0, 255, 255, 0, 255, 0, 255])]\<rparr>)"
proof -
  let ?E = "EditorEngine SmallThumbnail True True"
  have ne: "''/Game/Props/Rock.Rock'' \<noteq> []" "''C:/Thumbs/rock.png'' \<noteq> []"
    by simp_all
  have B: "[0xFF, 0xD8, 95] @ GetUncompressedImageData SmallThumbnail \<noteq> []"
    by simp
  note T = compression_quality_95 [of "''/Game/Props/Rock.Rock''" "''C:/Thumbs/rock.png''" ?E,
      OF ne editor_chain(1) editor_chain(2) SmallThumbnail_data editor_chain(3)
         editor_chain(4) editor_chain(5)]
  note R = T [THEN conjunct2, THEN conjunct1, THEN mp, OF B]
  have run: "ExportThumbnailAsPNG ?E ''/Game/Props/Rock.Rock'' ''C:/Thumbs/rock.png'' NewEditor =
     ([Ev_GetAsset ''/Game/Props/Rock.Rock'' (Some 7),
       Ev_RenderThumbnail 7 256 256 AlwaysFlush SmallThumbnail,
       Ev_CreateImageWrapper JPEG (Some 1),
       Ev_SetRaw 1 [0, 0, 255, 255, 0, 255, 0, 255] 8 2 1 BGRA 8 True,
       Ev_GetCompressed 1 95 [0xFF, 0xD8, 95, 0, 0, 255, 255, 0, 255, 0, 255],
       Ev_DirectoryExists ''C:/Thumbs'' False,
       Ev_MakeDirectory ''C:/Thumbs'' True True,
       Ev_SaveArrayToFile [0xFF, 0xD8, 95, 0, 0, 255, 255, 0, 255, 0, 255]
         ''C:/Thumbs/rock.jpg'' True,
       Ev_UE_LOG Log ''Exported thumbnail to: C:/Thumbs/rock.jpg''],
      (Holding SmallThumbnail)
        \<lparr>Folders := [''C:/Thumbs''],
         Written := [(''C:/Thumbs/rock.jpg'', [0xFF, 0xD8, 95, 0, 0, 255, 255, 0, 255, 0, 255])]\<rparr>)"
    unfolding R
    by (simp add: editor_chain editor_disk rock_paths SmallThumbnail_def)
  show ?thesis
    using run editor_chain(5) by simp
qed

subsection \<open>The output directory\<close>

text \<open>
  C6, as the code has it: whenever the routine reaches the file-writing step with
  compressed bytes, it asks whether the directory of the output path exists. If it
  does, the write follows at once. If it does not, the routine calls \<^verbatim>\<open>MakeDirectory\<close>
  on that directory with \<^verbatim>\<open>Tree = true\<close> (create the parents too) and then attempts the
  write in the state \<^verbatim>\<open>MakeDirectory\<close> left. The result of \<^verbatim>\<open>MakeDirectory\<close> is ignored:
  the write is attempted whether or not the directory was created. The directory is
  that of the path written, which is the directory of the caller's output path.
\<close>

theorem directory_made_before_write:
  fixes E :: "('w, 'obj, 'iw) Engine" and OutputPath :: string and w5 :: 'w
  defines "P \<equiv> ChangeExtension OutputPath ''.jpg''"
  defines "D \<equiv> GetPath (ChangeExtension OutputPath ''.jpg'')"
  assumes nonempty: "ObjectPath \<noteq> []" "OutputPath \<noteq> []"
      and asset: "GetAsset E ObjectPath w = (Some Obj, w1)"
      and render: "RenderThumbnail E Obj 256 256 AlwaysFlush w1 = (Thumb, w2)"
      and data: "GetUncompressedImageData Thumb \<noteq> []"
      and wrapper: "CreateImageWrapper E JPEG w2 = (Some IW, w3)"
      and raw: "SetRaw E IW (GetUncompressedImageData Thumb)
                  (int (length (GetUncompressedImageData Thumb)))
                  (GetImageWidth Thumb) (GetImageHeight Thumb) BGRA 8 w3 = (RawOk, w4)"
      and compressed: "GetCompressed E IW 95 w4 = (B, w5)"
      and bytes: "B \<noteq> []"
  shows "(DirectoryExists E D w5 \<longrightarrow>
            ExportThumbnailAsPNG E ObjectPath OutputPath w =
              ([Ev_GetAsset ObjectPath (Some Obj),
                Ev_RenderThumbnail Obj 256 256 AlwaysFlush Thumb,
                Ev_CreateImageWrapper JPEG (Some IW),
                Ev_SetRaw IW (GetUncompressedImageData Thumb)
                  (int (length (GetUncompressedImageData Thumb)))
                  (GetImageWidth Thumb) (GetImageHeight Thumb) BGRA 8 RawOk,
                Ev_GetCompressed IW 95 B,
                Ev_DirectoryExists D True,
                Ev_SaveArrayToFile B P (fst (SaveArrayToFile E B P w5)),
                Ev_UE_LOG (if fst (SaveArrayToFile E B P w5) then Log else Warning)
                  ((if fst (SaveArrayToFile E B P w5) then ''Exported thumbnail to: ''
                    else ''Failed to save thumbnail to: '') @ P)],
               snd (SaveArrayToFile E B P w5)))
       \<and> (\<not> DirectoryExists E D w5 \<longrightarrow>
            ExportThumbnailAsPNG E ObjectPath OutputPath w =
              ([Ev_GetAsset ObjectPath (Some Obj),
                Ev_RenderThumbnail Obj 256 256 AlwaysFlush Thumb,
                Ev_CreateImageWrapper JPEG (Some IW),
                Ev_SetRaw IW (GetUncompressedImageData Thumb)
                  (int (length (GetUncompressedImageData Thumb)))
                  (GetImageWidth Thumb) (GetImageHeight Thumb) BGRA 8 RawOk,
                Ev_GetCompressed IW 95 B,
                Ev_DirectoryExists D False,
                Ev_MakeDirectory D True (fst (MakeDirectory E D True w5)),
                Ev_SaveArrayToFile B P
                  (fst (SaveArrayToFile E B P (snd (MakeDirectory E D True w5)))),
                Ev_UE_LOG
                  (if fst (SaveArrayToFile E B P (snd (MakeDirectory E D True w5)))
                   then Log else Warning)
                  ((if fst (SaveArrayToFile E B P (snd (MakeDirectory E D True w5)))
                    then ''Exported thumbnail to: ''
                    else ''Failed to save thumbnail to: '') @ P)],
               snd (SaveArrayToFile E B P (snd (MakeDirectory E D True w5)))))
       \<and> D = GetPath OutputPath"
    (is "(_ \<longrightarrow> ?there) \<and> (_ \<longrightarrow> ?absent) \<and> ?dir")
proof -
  have 1: ?there if "DirectoryExists E D w5"
    using that assms unfolding P_def D_def by (simp add: Export_unfold case_prod_beta)
  have 2: ?absent if "\<not> DirectoryExists E D w5"
    using that assms unfolding P_def D_def by (simp add: Export_unfold case_prod_beta)
  have 3: ?dir
    unfolding D_def by (rule GetPath_ChangeExtension_jpg)
  from 1 2 3 show ?thesis by blast
qed

theorem directory_made_before_write_witness:
  "\<not> DirectoryExists (EditorEngine SmallThumbnail True True) ''C:/Thumbs''
       (Holding SmallThumbnail)
   \<and> MakeDirectory (EditorEngine SmallThumbnail True True) ''C:/Thumbs'' True
       (Holding SmallThumbnail)
     = (True, (Holding SmallThumbnail)\<lparr>Folders := [''C:/Thumbs'']\<rparr>)
   \<and> ExportThumbnailAsPNG (EditorEngine SmallThumbnail True True)
       ''/Game/Props/Rock.Rock'' ''C:/Thumbs/rock.png'' NewEditor =
     ([Ev_GetAsset ''/Game/Props/Rock.Rock'' (Some 7),
       Ev_RenderThumbnail 7 256 256 AlwaysFlush SmallThumbnail,
       Ev_CreateImageWrapper JPEG (Some 1),
       Ev_SetRaw 1 [0, 0, 255, 255, 0, 255, 0, 255] 8 2 1 BGRA 8 True,
       Ev_GetCompressed 1 95 [0xFF, 0xD8, 95, 0, 0, 255, 255, 0, 255, 0, 255],
       Ev_DirectoryExists ''C:/Thumbs'' False,
       Ev_MakeDirectory ''C:/Thumbs'' True True,
       Ev_SaveArrayToFile [0xFF, 0xD8, 95, 0, 0, 255, 255, 0, 255, 0, 255]
         ''C:/Thumbs/rock.jpg'' True,
       Ev_UE_LOG Log ''Exported thumbnail to: C:/Thumbs/rock.jpg''],
      (Holding SmallThumbnail)
        \<lparr>Folders := [''C:/Thumbs''],
         Written := [(''C:/Thumbs/rock.jpg'', [0xFF, 0xD8, 95, 0, 0, 255, 255, 0, 255, 0, 255])]\<rparr>)"
proof -
  let ?E = "EditorEngine SmallThumbnail True True"
  note T = directory_made_before_write
      [of "''/Game/Props/Rock.Rock''" "''C:/Thumbs/rock.png''" ?E,
       OF rock_nonempty editor_chain(1) editor_chain(2) SmallThumbnail_data
          editor_chain(3) editor_chain(4) editor_chain(5) editor_bytes]
  note R = T [THEN conjunct2, THEN conjunct1, THEN mp, OF editor_chain(6)]
  have run: "ExportThumbnailAsPNG (?E)
       ''/Game/Props/Rock.Rock'' ''C:/Thumbs/rock.png'' NewEditor =
     ([Ev_GetAsset ''/Game/Props/Rock.Rock'' (Some 7),
       Ev_RenderThumbnail 7 256 256 AlwaysFlush SmallThumbnail,
       Ev_CreateImageWrapper JPEG (Some 1),
       Ev_SetRaw 1 [0, 0, 255, 255, 0, 255, 0, 255] 8 2 1 BGRA 8 True,
       Ev_GetCompressed 1 95 [0xFF, 0xD8, 95, 0, 0, 255, 255, 0, 255, 0, 255],
       Ev_DirectoryExists ''C:/Thumbs'' False,
       Ev_MakeDirectory ''C:/Thumbs'' True True,
       Ev_SaveArrayToFile [0xFF, 0xD8, 95, 0, 0, 255, 255, 0, 255, 0, 255]
         ''C:/Thumbs/rock.jpg'' True,
       Ev_UE_LOG Log ''Exported thumbnail to: C:/Thumbs/rock.jpg''],
      (Holding SmallThumbnail)
        \<lparr>Folders := [''C:/Thumbs''],
         Written := [(''C:/Thumbs/rock.jpg'', [0xFF, 0xD8, 95, 0, 0, 255, 255, 0, 255, 0, 255])]\<rparr>)"
    unfolding R
    by (simp add: editor_chain editor_disk rock_paths SmallThumbnail_def)
  from run show ?thesis
    by (simp add: editor_chain editor_disk)
qed

text \<open>
  As first stated, C6 had the missing directory created before the write is attempted.
  On an engine that cannot make the folder, \<^verbatim>\<open>MakeDirectory\<close> returns false and leaves
  the state as it was; the routine attempts the write all the same, in a state in which
  the directory still does not exist, and the write fails.
\<close>

theorem write_attempted_without_directory_counterexample:
  "fst (ExportThumbnailAsPNG (EditorEngine SmallThumbnail False True)
       ''/Game/Props/Rock.Rock'' ''C:/Thumbs/rock.png'' NewEditor) =
     [Ev_GetAsset ''/Game/Props/Rock.Rock'' (Some 7),
       Ev_RenderThumbnail 7 256 256 AlwaysFlush SmallThumbnail,
       Ev_CreateImageWrapper JPEG (Some 1),
       Ev_SetRaw 1 [0, 0, 255, 255, 0, 255, 0, 255] 8 2 1 BGRA 8 True,
       Ev_GetCompressed 1 95 [0xFF, 0xD8, 95, 0, 0, 255, 255, 0, 255, 0, 255],
       Ev_DirectoryExists ''C:/Thumbs'' False,
       Ev_MakeDirectory ''C:/Thumbs'' True False,
       Ev_SaveArrayToFile [0xFF, 0xD8, 95, 0, 0, 255, 255, 0, 255, 0, 255]
         ''C:/Thumbs/rock.jpg'' False,
       Ev_UE_LOG Warning ''Failed to save thumbnail to: C:/Thumbs/rock.jpg'']
   \<and> MakeDirectory (EditorEngine SmallThumbnail False True) ''C:/Thumbs'' True
       (Holding SmallThumbnail) = (False, Holding SmallThumbnail)
   \<and> \<not> DirectoryExists (EditorEngine SmallThumbnail False True) ''C:/Thumbs''
         (Holding SmallThumbnail)
   \<and> SaveArrayToFile (EditorEngine SmallThumbnail False True)
       [0xFF, 0xD8, 95, 0, 0, 255, 255, 0, 255, 0, 255] ''C:/Thumbs/rock.jpg''
       (Holding SmallThumbnail) = (False, Holding SmallThumbnail)"
  using run_editor [OF SmallThumbnail_data, of False True]
  by (simp add: editor_chain editor_disk) (simp add: SmallThumbnail_def)

subsection \<open>Module lifecycle hooks\<close>

text \<open>
  C7: \<^verbatim>\<open>StartupModule\<close> and \<^verbatim>\<open>ShutdownModule\<close> each make one call, a log line with a
  fixed message, and leave the engine state as it was.
\<close>

theorem module_hooks_only_log:
  "StartupModule w = ([Ev_UE_LOG Warning ''ThumbnailExporter Plugin Loaded Successfully!''], w)
   \<and> ShutdownModule w = ([Ev_UE_LOG Warning ''ThumbnailExporter Plugin Unloaded!''], w)"
  by (simp add: StartupModule_def ShutdownModule_def)

subsection \<open>What the encoder is given\<close>

text \<open>
  C8: in every successful export the encoder's \<^verbatim>\<open>SetRaw\<close> is applied once, in the state
  the wrapper's creation left, to the pixel data, the width and the height that the
  rendered thumbnail itself reports (\<^verbatim>\<open>GetImageWidth\<close>, \<^verbatim>\<open>GetImageHeight\<close>), as BGRA with
  8 bits per channel; the 256 of the render request is not passed on. The bytes written
  to the file are the ones \<^verbatim>\<open>GetCompressed\<close> returns in the state that application of
  \<^verbatim>\<open>SetRaw\<close> left. The routine does not look at the result of \<^verbatim>\<open>SetRaw\<close>. When \<^verbatim>\<open>SetRaw\<close>
  accepted the image, and the engine is one in which an accepted \<^verbatim>\<open>SetRaw\<close> leaves the
  wrapper with an image of the width and height it was given (\<open>Dim\<close> reads that size off
  the state), the image the encoder compresses has the dimensions of the rendered
  thumbnail, whatever they are.
\<close>

theorem encoder_gets_thumbnail_dimensions:
  fixes E :: "('w, 'obj, 'iw) Engine" and OutputPath :: string and w5 :: 'w
  defines "P \<equiv> ChangeExtension OutputPath ''.jpg''"
  defines "D \<equiv> GetPath (ChangeExtension OutputPath ''.jpg'')"
  defines "w7 \<equiv> if DirectoryExists E (GetPath (ChangeExtension OutputPath ''.jpg'')) w5 then w5
               else snd (MakeDirectory E (GetPath (ChangeExtension OutputPath ''.jpg'')) True w5)"
  assumes nonempty: "ObjectPath \<noteq> []" "OutputPath \<noteq> []"
      and asset: "GetAsset E ObjectPath w = (Some Obj, w1)"
      and render: "RenderThumbnail E Obj 256 256 AlwaysFlush w1 = (Thumb, w2)"
      and data: "GetUncompressedImageData Thumb \<noteq> []"
      and wrapper: "CreateImageWrapper E JPEG w2 = (Some IW, w3)"
      and raw: "SetRaw E IW (GetUncompressedImageData Thumb)
                  (int (length (GetUncompressedImageData Thumb)))
                  (GetImageWidth Thumb) (GetImageHeight Thumb) BGRA 8 w3 = (RawOk, w4)"
      and compressed: "GetCompressed E IW 95 w4 = (B, w5)"
      and bytes: "B \<noteq> []"
      and saved: "SaveArrayToFile E B P w7 = (True, w8)"
  shows "ExportThumbnailAsPNG E ObjectPath OutputPath w =
              ([Ev_GetAsset ObjectPath (Some Obj),
                Ev_RenderThumbnail Obj 256 256 AlwaysFlush Thumb,
                Ev_CreateImageWrapper JPEG (Some IW),
                Ev_SetRaw IW (GetUncompressedImageData Thumb)
                  (int (length (GetUncompressedImageData Thumb)))
                  (GetImageWidth Thumb) (GetImageHeight Thumb) BGRA 8 RawOk,
                Ev_GetCompressed IW 95 B,
                Ev_DirectoryExists D (DirectoryExists E D w5)]
               @ (if DirectoryExists E D w5 then []
                  else [Ev_MakeDirectory D True (fst (MakeDirectory E D True w5))])
               @ [Ev_SaveArrayToFile B P True,
                  Ev_UE_LOG Log (''Exported thumbnail to: '' @ P)],
               w8)
       \<and> Ev_SaveArrayToFile
            (fst (GetCompressed E IW 95
               (snd (SetRaw E IW (GetUncompressedImageData Thumb)
                       (int (length (GetUncompressedImageData Thumb)))
                       (GetImageWidth Thumb) (GetImageHeight Thumb) BGRA 8 w3))))
            P True
          \<in> set (fst (ExportThumbnailAsPNG E ObjectPath OutputPath w))
       \<and> ((\<forall>iw d n a b f bits u u'.
              SetRaw E iw d n a b f bits u = (True, u') \<longrightarrow> Dim iw u' = (a, b)) \<and> RawOk \<longrightarrow>
            Dim IW w4 = (GetImageWidth Thumb, GetImageHeight Thumb))"
    (is "?run \<and> ?encoded \<and> ?held")
proof -
  from assms have run: ?run
    unfolding P_def D_def w7_def
    by (cases "DirectoryExists E (GetPath (ChangeExtension OutputPath ''.jpg'')) w5")
       (simp_all add: Export_unfold case_prod_beta)
  from raw compressed have composed:
    "fst (GetCompressed E IW 95
       (snd (SetRaw E IW (GetUncompressedImageData Thumb)
               (int (length (GetUncompressedImageData Thumb)))
               (GetImageWidth Thumb) (GetImageHeight Thumb) BGRA 8 w3))) = B"
    by simp
  have encoded: ?encoded unfolding run composed by simp
  have held: ?held using raw by auto
  from run encoded held show ?thesis by blast
qed

theorem encoder_gets_thumbnail_dimensions_witness:
  "ExportThumbnailAsPNG (EditorEngine SmallThumbnail True True)
       ''/Game/Props/Rock.Rock'' ''C:/Thumbs/rock.png'' NewEditor =
     ([Ev_GetAsset ''/Game/Props/Rock.Rock'' (Some 7),
       Ev_RenderThumbnail 7 256 256 AlwaysFlush SmallThumbnail,
       Ev_CreateImageWrapper JPEG (Some 1),
       Ev_SetRaw 1 [0, 0, 255, 255, 0, 255, 0, 255] 8 2 1 BGRA 8 True,
       Ev_GetCompressed 1 95 [0xFF, 0xD8, 95, 0, 0, 255, 255, 0, 255, 0, 255],
       Ev_DirectoryExists ''C:/Thumbs'' False,
       Ev_MakeDirectory ''C:/Thumbs'' True True,
       Ev_SaveArrayToFile [0xFF, 0xD8, 95, 0, 0, 255, 255, 0, 255, 0, 255]
         ''C:/Thumbs/rock.jpg'' True,
       Ev_UE_LOG Log ''Exported thumbnail to: C:/Thumbs/rock.jpg''],
      (Holding SmallThumbnail)
        \<lparr>Folders := [''C:/Thumbs''],
         Written := [(''C:/Thumbs/rock.jpg'', [0xFF, 0xD8, 95, 0, 0, 255, 255, 0, 255, 0, 255])]\<rparr>)
   \<and> HeldSize 1 (Holding SmallThumbnail) = (2, 1)"
proof -
  let ?E = "EditorEngine SmallThumbnail True True"
  note T = encoder_gets_thumbnail_dimensions
      [of "''/Game/Props/Rock.Rock''" "''C:/Thumbs/rock.png''" ?E _ _ _ _ _ _ _ _ _ _ _ _ HeldSize,
       OF rock_nonempty editor_chain(1) editor_chain(2) SmallThumbnail_data
          editor_chain(3) editor_chain(4) editor_chain(5) editor_bytes editor_saved]
  have contract: "\<forall>iw d n a b f bits u u'.
      SetRaw ?E iw d n a b f bits u = (True, u') \<longrightarrow> HeldSize iw u' = (a, b)"
    by (auto simp add: EditorEngine_def HeldSize_def split: if_splits)
  from T [THEN conjunct2, THEN conjunct2] contract
  have "HeldSize 1 (Holding SmallThumbnail)
          = (GetImageWidth SmallThumbnail, GetImageHeight SmallThumbnail)"
    by blast
  then have size: "HeldSize 1 (Holding SmallThumbnail) = (2, 1)"
    by (simp add: SmallThumbnail_def)
  have run: "ExportThumbnailAsPNG (?E)
       ''/Game/Props/Rock.Rock'' ''C:/Thumbs/rock.png'' NewEditor =
     ([Ev_GetAsset ''/Game/Props/Rock.Rock'' (Some 7),
       Ev_RenderThumbnail 7 256 256 AlwaysFlush SmallThumbnail,
       Ev_CreateImageWrapper JPEG (Some 1),
       Ev_SetRaw 1 [0, 0, 255, 255, 0, 255, 0, 255] 8 2 1 BGRA 8 True,
       Ev_GetCompressed 1 95 [0xFF, 0xD8, 95, 0, 0, 255, 255, 0, 255, 0, 255],
       Ev_DirectoryExists ''C:/Thumbs'' False,
       Ev_MakeDirectory ''C:/Thumbs'' True True,
       Ev_SaveArrayToFile [0xFF, 0xD8, 95, 0, 0, 255, 255, 0, 255, 0, 255]
         ''C:/Thumbs/rock.jpg'' True,
       Ev_UE_LOG Log ''Exported thumbnail to: C:/Thumbs/rock.jpg''],
      (Holding SmallThumbnail)
        \<lparr>Folders := [''C:/Thumbs''],
         Written := [(''C:/Thumbs/rock.jpg'', [0xFF, 0xD8, 95, 0, 0, 255, 255, 0, 255, 0, 255])]\<rparr>)"
    unfolding T [THEN conjunct1]
    by (simp add: editor_chain editor_disk rock_paths SmallThumbnail_def)
  from run size show ?thesis by simp
qed

subsection \<open>The path written\<close>

text \<open>
  C9: the path written should be the caller's output path with its extension replaced
  by \<^verbatim>\<open>.jpg\<close>. For an output path whose file name has no dot, \<^verbatim>\<open>ChangeExtension\<close>
  replaces nothing: with the output path \<^verbatim>\<open>C:/Thumbs.v2/rock\<close> (the only dot is in the
  directory) the routine succeeds and writes \<^verbatim>\<open>C:/Thumbs.v2/rock\<close> itself, base name
  \<^verbatim>\<open>rock\<close>, extension empty, where \<^verbatim>\<open>C:/Thumbs.v2/rock.jpg\<close> was due.
\<close>

theorem dotted_directory_output_written_unchanged:
  "Ev_SaveArrayToFile [0xFF, 0xD8, 0xFF, 0xD9] ''C:/Thumbs.v2/rock'' True
     \<in> set (fst (ExportThumbnailAsPNG (ExampleEngine SmallThumbnail True)
                   ''/Game/Props/Rock.Rock'' ''C:/Thumbs.v2/rock'' EmptyDisk))
   \<and> ChangeExtension ''C:/Thumbs.v2/rock'' ''.jpg'' = ''C:/Thumbs.v2/rock''
   \<and> GetBaseFilename ''C:/Thumbs.v2/rock'' = ''rock''
   \<and> GetExtension ''C:/Thumbs.v2/rock'' False = []"
proof -
  have "fst (ExportThumbnailAsPNG (ExampleEngine SmallThumbnail True)
          ''/Game/Props/Rock.Rock'' ''C:/Thumbs.v2/rock'' EmptyDisk) =
        [Ev_GetAsset ''/Game/Props/Rock.Rock'' (Some 7),
          Ev_RenderThumbnail 7 256 256 AlwaysFlush SmallThumbnail,
          Ev_CreateImageWrapper JPEG (Some 1),
          Ev_SetRaw 1 (GetUncompressedImageData SmallThumbnail)
            (int (length (GetUncompressedImageData SmallThumbnail)))
            (GetImageWidth SmallThumbnail) (GetImageHeight SmallThumbnail) BGRA 8 True,
          Ev_GetCompressed 1 95 [0xFF, 0xD8, 0xFF, 0xD9],
          Ev_DirectoryExists (GetPath ''C:/Thumbs.v2/rock'') False,
          Ev_MakeDirectory (GetPath ''C:/Thumbs.v2/rock'') True True,
          Ev_SaveArrayToFile [0xFF, 0xD8, 0xFF, 0xD9] ''C:/Thumbs.v2/rock'' True,
          Ev_UE_LOG Log (''Exported thumbnail to: '' @ ''C:/Thumbs.v2/rock'')]"
    using run_example [OF SmallThumbnail_data, of "''C:/Thumbs.v2/rock''" True]
    by (simp add: ChangeExtension_dotted_directory)
  moreover have "GetBaseFilename ''C:/Thumbs.v2/rock'' = ''rock''"
    by (simp add: path_eval)
  moreover have "GetExtension ''C:/Thumbs.v2/rock'' False = []"
    by (simp add: path_eval)
  ultimately show ?thesis by (simp add: ChangeExtension_dotted_directory)
qed

subsection \<open>The directory after a failed write\<close>

text \<open>
  C10, as the code has it: when compression succeeded, the directory check found no
  directory and the file write then failed, the routine had called \<^verbatim>\<open>MakeDirectory\<close> on
  the output directory with \<^verbatim>\<open>Tree = true\<close> before the write, and after the failed write
  it only logs the warning: the state it leaves is the state the failed write left, and
  nothing is undone. So the directory exists in the final state if \<^verbatim>\<open>MakeDirectory\<close> did
  create it and the engine's \<^verbatim>\<open>SaveArrayToFile\<close> removes no directory. The result of
  \<^verbatim>\<open>MakeDirectory\<close> is recorded and ignored: when it failed, the directory has not been
  created.
\<close>

theorem made_directory_persists_on_write_failure:
  fixes E :: "('w, 'obj, 'iw) Engine" and OutputPath :: string and w5 :: 'w
  defines "P \<equiv> ChangeExtension OutputPath ''.jpg''"
  defines "D \<equiv> GetPath (ChangeExtension OutputPath ''.jpg'')"
  assumes nonempty: "ObjectPath \<noteq> []" "OutputPath \<noteq> []"
      and asset: "GetAsset E ObjectPath w = (Some Obj, w1)"
      and render: "RenderThumbnail E Obj 256 256 AlwaysFlush w1 = (Thumb, w2)"
      and data: "GetUncompressedImageData Thumb \<noteq> []"
      and wrapper: "CreateImageWrapper E JPEG w2 = (Some IW, w3)"
      and raw: "SetRaw E IW (GetUncompressedImageData Thumb)
                  (int (length (GetUncompressedImageData Thumb)))
                  (GetImageWidth Thumb) (GetImageHeight Thumb) BGRA 8 w3 = (RawOk, w4)"
      and compressed: "GetCompressed E IW 95 w4 = (B, w5)"
      and bytes: "B \<noteq> []"
      and missing: "\<not> DirectoryExists E D w5"
      and made: "MakeDirectory E D True w5 = (Made, w6)"
      and failed: "SaveArrayToFile E B P w6 = (False, w8)"
  shows "ExportThumbnailAsPNG E ObjectPath OutputPath w =
              ([Ev_GetAsset ObjectPath (Some Obj),
                Ev_RenderThumbnail Obj 256 256 AlwaysFlush Thumb,
                Ev_CreateImageWrapper JPEG (Some IW),
                Ev_SetRaw IW (GetUncompressedImageData Thumb)
                  (int (length (GetUncompressedImageData Thumb)))
                  (GetImageWidth Thumb) (GetImageHeight Thumb) BGRA 8 RawOk,
                Ev_GetCompressed IW 95 B,
                Ev_DirectoryExists D False,
                Ev_MakeDirectory D True Made,
                Ev_SaveArrayToFile B P False,
                Ev_UE_LOG Warning (''Failed to save thumbnail to: '' @ P)],
               w8)
       \<and> (DirectoryExists E D w6
            \<and> (\<forall>b p u. DirectoryExists E D u \<longrightarrow>
                         DirectoryExists E D (snd (SaveArrayToFile E b p u))) \<longrightarrow>
            DirectoryExists E D (snd (ExportThumbnailAsPNG E ObjectPath OutputPath w)))"
    (is "?run \<and> ?stays")
proof -
  from assms have run: ?run
    unfolding P_def D_def by (simp add: Export_unfold case_prod_beta)
  have "DirectoryExists E D w8"
    if "DirectoryExists E D w6"
      "\<forall>b p u. DirectoryExists E D u \<longrightarrow> DirectoryExists E D (snd (SaveArrayToFile E b p u))"
  proof -
    from that have "DirectoryExists E D (snd (SaveArrayToFile E B P w6))" by blast
    with failed show ?thesis by simp
  qed
  then have ?stays unfolding run by simp
  with run show ?thesis by blast
qed

theorem made_directory_persists_on_write_failure_witness:
  "ExportThumbnailAsPNG (EditorEngine SmallThumbnail True False)
       ''/Game/Props/Rock.Rock'' ''C:/Thumbs/rock.png'' NewEditor =
     ([Ev_GetAsset ''/Game/Props/Rock.Rock'' (Some 7),
       Ev_RenderThumbnail 7 256 256 AlwaysFlush SmallThumbnail,
       Ev_CreateImageWrapper JPEG (Some 1),
       Ev_SetRaw 1 [0, 0, 255, 255, 0, 255, 0, 255] 8 2 1 BGRA 8 True,
       Ev_GetCompressed 1 95 [0xFF, 0xD8, 95, 0, 0, 255, 255, 0, 255, 0, 255],
       Ev_DirectoryExists ''C:/Thumbs'' False,
       Ev_MakeDirectory ''C:/Thumbs'' True True,
       Ev_SaveArrayToFile [0xFF, 0xD8, 95, 0, 0, 255, 255, 0, 255, 0, 255]
         ''C:/Thumbs/rock.jpg'' False,
       Ev_UE_LOG Warning ''Failed to save thumbnail to: C:/Thumbs/rock.jpg''],
      (Holding SmallThumbnail)\<lparr>Folders := [''C:/Thumbs'']\<rparr>)
   \<and> DirectoryExists (EditorEngine SmallThumbnail True False) ''C:/Thumbs''
       (snd (ExportThumbnailAsPNG (EditorEngine SmallThumbnail True False)
       ''/Game/Props/Rock.Rock'' ''C:/Thumbs/rock.png'' NewEditor))"
proof -
  let ?E = "EditorEngine SmallThumbnail True False"
  note T = made_directory_persists_on_write_failure
      [of "''/Game/Props/Rock.Rock''" "''C:/Thumbs/rock.png''" ?E,
       OF rock_nonempty editor_chain(1) editor_chain(2) SmallThumbnail_data
          editor_chain(3) editor_chain(4) editor_chain(5) editor_bytes
          editor_chain(6) editor_disk(1) editor_disk(4)]
  have run: "ExportThumbnailAsPNG (?E)
       ''/Game/Props/Rock.Rock'' ''C:/Thumbs/rock.png'' NewEditor =
     ([Ev_GetAsset ''/Game/Props/Rock.Rock'' (Some 7),
       Ev_RenderThumbnail 7 256 256 AlwaysFlush SmallThumbnail,
       Ev_CreateImageWrapper JPEG (Some 1),
       Ev_SetRaw 1 [0, 0, 255, 255, 0, 255, 0, 255] 8 2 1 BGRA 8 True,
       Ev_GetCompressed 1 95 [0xFF, 0xD8, 95, 0, 0, 255, 255, 0, 255, 0, 255],
       Ev_DirectoryExists ''C:/Thumbs'' False,
       Ev_MakeDirectory ''C:/Thumbs'' True True,
       Ev_SaveArrayToFile [0xFF, 0xD8, 95, 0, 0, 255, 255, 0, 255, 0, 255]
         ''C:/Thumbs/rock.jpg'' False,
       Ev_UE_LOG Warning ''Failed to save thumbnail to: C:/Thumbs/rock.jpg''],
      (Holding SmallThumbnail)\<lparr>Folders := [''C:/Thumbs'']\<rparr>)"
    unfolding T [THEN conjunct1]
    by (simp add: rock_paths SmallThumbnail_def)
  have keeps: "\<forall>b p u. DirectoryExists ?E
                  (GetPath (ChangeExtension ''C:/Thumbs/rock.png'' ''.jpg'')) u \<longrightarrow>
               DirectoryExists ?E
                  (GetPath (ChangeExtension ''C:/Thumbs/rock.png'' ''.jpg''))
                  (snd (SaveArrayToFile ?E b p u))"
    by (simp add: EditorEngine_def)
  from T [THEN conjunct2] editor_disk(6) keeps
  have "DirectoryExists ?E (GetPath (ChangeExtension ''C:/Thumbs/rock.png'' ''.jpg''))
          (snd (ExportThumbnailAsPNG (?E)
       ''/Game/Props/Rock.Rock'' ''C:/Thumbs/rock.png'' NewEditor))"
    by blast
  with run show ?thesis
    by (simp add: rock_paths)
qed

text \<open>
  As first stated, C10 had the missing directory created in every run in which
  compression succeeds and the write fails. On an engine that cannot make the folder,
  compression succeeds, the directory is missing, \<^verbatim>\<open>MakeDirectory\<close> fails, the write
  fails, and the directory does not exist in the state the routine leaves.
\<close>

theorem directory_absent_after_failed_write_counterexample:
  "ExportThumbnailAsPNG (EditorEngine SmallThumbnail False True)
       ''/Game/Props/Rock.Rock'' ''C:/Thumbs/rock.png'' NewEditor =
     ([Ev_GetAsset ''/Game/Props/Rock.Rock'' (Some 7),
       Ev_RenderThumbnail 7 256 256 AlwaysFlush SmallThumbnail,
       Ev_CreateImageWrapper JPEG (Some 1),
       Ev_SetRaw 1 [0, 0, 255, 255, 0, 255, 0, 255] 8 2 1 BGRA 8 True,
       Ev_GetCompressed 1 95 [0xFF, 0xD8, 95, 0, 0, 255, 255, 0, 255, 0, 255],
       Ev_DirectoryExists ''C:/Thumbs'' False,
       Ev_MakeDirectory ''C:/Thumbs'' True False,
       Ev_SaveArrayToFile [0xFF, 0xD8, 95, 0, 0, 255, 255, 0, 255, 0, 255]
         ''C:/Thumbs/rock.jpg'' False,
       Ev_UE_LOG Warning ''Failed to save thumbnail to: C:/Thumbs/rock.jpg''],
      Holding SmallThumbnail)
   \<and> Folders (Holding SmallThumbnail) = []
   \<and> \<not> DirectoryExists (EditorEngine SmallThumbnail False True) ''C:/Thumbs''
         (snd (ExportThumbnailAsPNG (EditorEngine SmallThumbnail False True)
       ''/Game/Props/Rock.Rock'' ''C:/Thumbs/rock.png'' NewEditor))"
  using run_editor [OF SmallThumbnail_data, of False True]
  by (simp add: editor_chain)
     (simp add: SmallThumbnail_def Holding_def AfterRender_def AfterLookup_def NewEditor_def
        EditorEngine_def)

end
